theory Spec2Isabelle
  imports Complex_Main
begin

section \<open>JavaScript strings and numbers\<close>

text \<open>
  A JavaScript string is a sequence of UTF-16 code units; each unit is modelled as a
  natural number. \<open>str\<close> turns an ASCII literal into that representation.  Numbers that
  the program handles are integers (sensor readings, sums, counts), modelled as \<open>int\<close>;
  \<open>NaN\<close> as the result of \<open>parseInt\<close> is \<open>None\<close>.
\<close>

type_synonym jsstring = "nat list"

definition str :: "string \<Rightarrow> jsstring" where
  "str s = map of_char s"

text \<open>\<open>String.prototype.startsWith\<close> and \<open>String.prototype.includes\<close>.\<close>

fun startsWith :: "jsstring \<Rightarrow> jsstring \<Rightarrow> bool" where
  "startsWith s [] = True"
| "startsWith [] (p # ps) = False"
| "startsWith (c # cs) (p # ps) = (c = p \<and> startsWith cs ps)"

fun str_includes :: "jsstring \<Rightarrow> jsstring \<Rightarrow> bool" where
  "str_includes [] t = (t = [])"
| "str_includes (c # cs) t = (startsWith (c # cs) t \<or> str_includes cs t)"

text \<open>
  Line terminators (LF, CR, U+2028, U+2029) are what the regular expression atom \<open>.\<close>
  refuses; white space is what \<open>trim\<close> and \<open>parseInt\<close> strip: TAB, VT, FF, SP, NBSP,
  U+FEFF, the Unicode space separators, and the line terminators.
\<close>

definition line_terminator :: "nat \<Rightarrow> bool" where
  "line_terminator c = (c = 10 \<or> c = 13 \<or> c = 8232 \<or> c = 8233)"

definition white_space :: "nat \<Rightarrow> bool" where
  "white_space c =
     (c = 9 \<or> c = 11 \<or> c = 12 \<or> c = 32 \<or> c = 160 \<or> c = 5760 \<or> (8192 \<le> c \<and> c \<le> 8202)
      \<or> c = 8239 \<or> c = 8287 \<or> c = 12288 \<or> c = 65279 \<or> line_terminator c)"

definition trim :: "jsstring \<Rightarrow> jsstring" where
  "trim s = rev (dropWhile white_space (rev (dropWhile white_space s)))"

text \<open>\<open>s.split(',')\<close>: the pieces between commas (code unit 44); never an empty array.\<close>

fun cons_first :: "nat \<Rightarrow> jsstring list \<Rightarrow> jsstring list" where
  "cons_first c [] = [[c]]"
| "cons_first c (x # xs) = (c # x) # xs"

fun split_comma :: "jsstring \<Rightarrow> jsstring list" where
  "split_comma [] = [[]]"
| "split_comma (c # cs) =
     (if c = 44 then [] # split_comma cs else cons_first c (split_comma cs))"

text \<open>
  \<open>parseInt(s, 10)\<close>: skip leading white space, read an optional sign, then the longest
  run of decimal digits; no digit at all gives \<open>NaN\<close> (\<open>None\<close>).  Whatever follows the
  digits is ignored.
\<close>

definition is_digit :: "nat \<Rightarrow> bool" where
  "is_digit c = (48 \<le> c \<and> c \<le> 57)"

definition digits_value :: "nat list \<Rightarrow> int" where
  "digits_value ds = foldl (\<lambda>a d. 10 * a + int (d - 48)) 0 ds"

definition parseInt :: "jsstring \<Rightarrow> int option" where
  "parseInt s =
     (let t = dropWhile white_space s;
          neg = (t \<noteq> [] \<and> hd t = 45);
          u = (if t \<noteq> [] \<and> (hd t = 45 \<or> hd t = 43) then tl t else t);
          ds = takeWhile is_digit u
      in if ds = [] then None
         else Some (if neg then - digits_value ds else digits_value ds))"

text \<open>
  \<open>String(n)\<close> for an integer \<open>n\<close> (as used by \<open>join\<close> and template literals), and
  \<open>Array.prototype.join\<close> on an array of strings.
\<close>

fun digits :: "nat \<Rightarrow> nat list" where
  "digits n = (if n < 10 then [48 + n] else digits (n div 10) @ [48 + n mod 10])"

declare digits.simps [simp del]

definition number_to_string :: "int \<Rightarrow> jsstring" where
  "number_to_string i = (if i < 0 then 45 # digits (nat (- i)) else digits (nat i))"

fun join :: "jsstring \<Rightarrow> jsstring list \<Rightarrow> jsstring" where
  "join sep [] = []"
| "join sep [x] = x"
| "join sep (x # y # ys) = x @ sep @ join sep (y # ys)"

text \<open>
  \<open>Math.round(a / b)\<close> for an integer \<open>a\<close> and a positive count \<open>b\<close>: the nearest
  integer, a tie going up.  On the exact quotient this is \<open>\<lfloor>a / b + 1/2\<rfloor>\<close>.
\<close>

definition math_round_div :: "int \<Rightarrow> nat \<Rightarrow> int" where
  "math_round_div a b = (2 * a + int b) div (2 * int b)"

text \<open>
  \<open>Math.max(...xs)\<close> of a non-empty array (the empty array gives \<open>-Infinity\<close>, which
  is no integer: the function says nothing about it, and its one caller passes eight values).
  \<open>xs.indexOf(v)\<close>: the first position of \<open>v\<close>, or \<open>-1\<close>.
\<close>

fun math_max :: "int list \<Rightarrow> int" where
  "math_max (x # xs) = foldl max x xs"

fun index_from :: "int list \<Rightarrow> int \<Rightarrow> int \<Rightarrow> int" where
  "index_from [] v k = - 1"
| "index_from (x # xs) v k = (if x = v then k else index_from xs v (k + 1))"

definition indexOf :: "int list \<Rightarrow> int \<Rightarrow> int" where
  "indexOf xs v = index_from xs v 0"

section \<open>BLEManager: the frame decoder\<close>

text \<open>
  A notification carries a \<open>DataView\<close>, taken to span its whole buffer.  The model
  keeps the bytes and the string that the platform's \<open>TextDecoder\<close> produces from them;
  for ASCII payloads the two hold the same numbers.
\<close>

record data_view =
  bytes :: "nat list"
  text_of :: jsstring

datatype parse_result = Sample "int list" | ParseFailure jsstring

definition PRESSURE_LEFT :: jsstring where
  "PRESSURE_LEFT = str ''PRESSURE_LEFT:''"

definition PRESSURE_RIGHT :: jsstring where
  "PRESSURE_RIGHT = str ''PRESSURE_RIGHT:''"

text \<open>
  \<open>dataString.match(/PRESSURE_(?:LEFT|RIGHT):(.+)/)\<close>: the leftmost position at which a
  tag is followed by at least one character that is not a line terminator; the result is
  capture group 1, the longest run of such characters.
\<close>

definition capture_after :: "jsstring \<Rightarrow> jsstring option" where
  "capture_after r =
     (let g = takeWhile (\<lambda>c. \<not> line_terminator c) r in if g = [] then None else Some g)"

definition match_at :: "jsstring \<Rightarrow> jsstring option" where
  "match_at s =
     (if startsWith s PRESSURE_LEFT then capture_after (drop (length PRESSURE_LEFT) s)
      else if startsWith s PRESSURE_RIGHT then capture_after (drop (length PRESSURE_RIGHT) s)
      else None)"

fun match_pressure :: "jsstring \<Rightarrow> jsstring option" where
  "match_pressure [] = None"
| "match_pressure (c # cs) =
     (case match_at (c # cs) of Some g \<Rightarrow> Some g | None \<Rightarrow> match_pressure cs)"

text \<open>
  The callback given to \<open>map\<close> in both text decoders, and the padding loop
  \<open>while (pressureValues.length < 8) pressureValues.push(0)\<close>.
\<close>

definition entry_value :: "jsstring \<Rightarrow> int" where
  "entry_value val =
     (case parseInt (trim val) of None \<Rightarrow> 0 | Some num \<Rightarrow> max 0 (min 255 num))"

definition pad8 :: "int list \<Rightarrow> int list" where
  "pad8 vs = vs @ replicate (8 - length vs) 0"

definition pressure_values :: "jsstring \<Rightarrow> int list" where
  "pressure_values s = take 8 (map entry_value (split_comma s))"

text \<open>
  The body of \<open>handleCharacteristicValueChanged\<close> after the raw string has been logged:
  tagged text, then untagged comma-separated values, then eight raw bytes, else the
  unrecognised-format report.
\<close>

definition parseFrame :: "data_view \<Rightarrow> parse_result" where
  "parseFrame v =
     (let dataString = text_of v;
          tagged =
            (if str_includes dataString PRESSURE_LEFT \<or> str_includes dataString PRESSURE_RIGHT
             then match_pressure dataString else None)
      in case tagged of
           Some g \<Rightarrow> Sample (pad8 (pressure_values (trim g)))
         | None \<Rightarrow>
             if str_includes dataString [44] \<and> 4 \<le> length (pressure_values (trim dataString))
             then Sample (pad8 (pressure_values (trim dataString)))
             else if length (bytes v) = 8 then Sample (map int (bytes v))
             else ParseFailure dataString)"

section \<open>BLEManager: devices, link state and observer events\<close>

text \<open>
  A value caught by a \<open>catch\<close> clause is either an \<open>Error\<close> object, with its name and
  message, or something else, of which only the string rendering is kept.
  \<open>thrown_to_string\<close> is the rendering used by a template literal.
\<close>

datatype thrown = JsError jsstring jsstring | NonError jsstring

definition message_includes :: "thrown \<Rightarrow> jsstring \<Rightarrow> bool" where
  "message_includes error t =
     (case error of JsError n message \<Rightarrow> str_includes message t | NonError r \<Rightarrow> False)"

definition thrown_to_string :: "thrown \<Rightarrow> jsstring" where
  "thrown_to_string error =
     (case error of
        JsError n message \<Rightarrow>
          if n = [] then message else if message = [] then n else n @ str '': '' @ message
      | NonError r \<Rightarrow> r)"

text \<open>
  The \<open>gatt\<close> field of a device is \<open>null\<close> for the mock devices.  For a real device it
  stands for the remote GATT server; the model records how that server answers the four
  awaited calls of \<open>connect\<close>, the first failing call carrying the value it throws.
\<close>

datatype gatt_outcome =
    ConnectFails thrown
  | ServiceFails thrown
  | CharacteristicFails thrown
  | NotificationsFail thrown
  | GattReady

record bluetooth_device =
  device_id :: jsstring
  device_name :: "jsstring option"
  gatt :: "gatt_outcome option"

text \<open>
  The fields of the class.  \<open>server\<close> holds the \<open>connected\<close> flag of the GATT server
  object when there is one; \<open>service\<close>, \<open>characteristic\<close> and \<open>collectionInterval\<close>
  record whether the field is non-null.
\<close>

record ble_manager =
  device :: "bluetooth_device option"
  server :: "bool option"
  service :: bool
  characteristic :: bool
  isCollecting :: bool
  collectionInterval :: bool

definition new_manager :: ble_manager where
  "new_manager =
     \<lparr>device = None, server = None, service = False, characteristic = False,
      isCollecting = False, collectionInterval = False\<rparr>"

text \<open>
  The three observer callbacks \<open>onDataReceived\<close>, \<open>onRawDataReceived\<close> and
  \<open>onConnectionChange\<close>: an operation returns the calls it makes, in order.  The
  \<open>console.error\<close> calls of these operations are kept in the same list, with their
  label and the value they print; they reach the browser console and no observer.  The
  \<open>console.log\<close> lines are left out.
\<close>

datatype event =
    DataReceived "int list"
  | RawDataReceived jsstring
  | ConnectionChange bool
  | ConsoleError jsstring thrown

definition SERVICE_UUID :: jsstring where
  "SERVICE_UUID = str ''12345678-1234-1234-1234-1234567890ab''"

definition CHARACTERISTIC_UUID :: jsstring where
  "CHARACTERISTIC_UUID = str ''abcd1234-5678-90ab-cdef-1234567890ab''"

subsection \<open>Discovery\<close>

text \<open>
  The platform as \<open>scanForDevices\<close> sees it: whether \<open>navigator.bluetooth\<close> exists, and
  how the filtered and the accept-all device requests end.
\<close>

datatype request_outcome = Granted bluetooth_device | Rejected thrown

record navigator_env =
  bluetooth :: bool
  filtered_request :: request_outcome
  accept_all_request :: request_outcome

definition getMockDevices :: "bluetooth_device list" where
  "getMockDevices =
     [\<lparr>device_id = str ''demo-esp32-left'', device_name = Some (str ''ESP32-FootSensor-L''),
       gatt = None\<rparr>,
      \<lparr>device_id = str ''demo-esp32-right'', device_name = Some (str ''ESP32-FootSensor-R''),
       gatt = None\<rparr>]"

definition unsupported_error :: thrown where
  "unsupported_error =
     JsError (str ''Error'')
       (str ''Web Bluetooth is not supported in this browser. Please use Chrome, Edge, or Opera.'')"

definition cancelled_error :: thrown where
  "cancelled_error = JsError (str ''Error'') (str ''Device selection cancelled by user'')"

text \<open>
  Without \<open>navigator.bluetooth\<close> the first \<open>try\<close> throws \<open>unsupported_error\<close> and the
  fallback request throws a \<open>TypeError\<close>, which the inner \<open>catch\<close> swallows.  The function
  returns no list of calls; the \<open>console.error\<close> of its outer \<open>catch\<close> is not part of its
  result.
\<close>

definition scanForDevices :: "navigator_env \<Rightarrow> thrown + bluetooth_device list" where
  "scanForDevices nav =
     (case (if bluetooth nav then filtered_request nav else Rejected unsupported_error) of
        Granted dev \<Rightarrow> Inr [dev]
      | Rejected error \<Rightarrow>
          if message_includes error (str ''User cancelled'') then Inl cancelled_error
          else if \<not> bluetooth nav then Inr getMockDevices
          else (case accept_all_request nav of
                  Granted dev \<Rightarrow> Inr [dev]
                | Rejected fallbackError \<Rightarrow> Inr getMockDevices))"

subsection \<open>Connection\<close>

definition demo_device :: bluetooth_device where
  "demo_device =
     \<lparr>device_id = str ''demo-device'', device_name = Some (str ''Demo ESP32 Sensor''),
      gatt = None\<rparr>"

definition simulateConnection :: "ble_manager \<Rightarrow> ble_manager \<times> event list" where
  "simulateConnection m =
     (m\<lparr>device := Some demo_device\<rparr>,
      [ConnectionChange True,
       RawDataReceived ([55356, 57261] @ str '' Demo mode activated - simulated ESP32 data'')])"

text \<open>
  The \<open>catch\<close> clause of \<open>connect\<close>: the caught value is written to the console;
  three kinds of message are then turned into a more specific error, which is thrown to
  the caller; every other value falls back to demo mode.  The result is the manager, the
  calls made, and the error thrown, if any.
\<close>

definition connect_failed ::
  "ble_manager \<Rightarrow> thrown \<Rightarrow> ble_manager \<times> event list \<times> thrown option" where
  "connect_failed m error =
     (if message_includes error (str ''GATT operation not permitted'') then
        (m, [ConsoleError (str ''Error connecting to ESP32:'') error],
         Some (JsError (str ''Error'')
          (str ''Device connection failed. Make sure the ESP32 is advertising and not connected to another device.'')))
      else if message_includes error (str ''Service not found'') then
        (m, [ConsoleError (str ''Error connecting to ESP32:'') error],
         Some (JsError (str ''Error'')
          (str ''ESP32 service not found. Please check that your ESP32 is running the correct firmware with service UUID: ''
             @ SERVICE_UUID)))
      else if message_includes error (str ''Characteristic not found'') then
        (m, [ConsoleError (str ''Error connecting to ESP32:'') error],
         Some (JsError (str ''Error'')
          (str ''ESP32 characteristic not found. Please verify the characteristic UUID: ''
             @ CHARACTERISTIC_UUID)))
      else
        (fst (simulateConnection m),
         ConsoleError (str ''Error connecting to ESP32:'') error # snd (simulateConnection m)
           @ [RawDataReceived ([9888, 65039] @ str '' Using demo mode - ESP32 connection failed'')],
         None))"

definition connect ::
  "ble_manager \<Rightarrow> bluetooth_device \<Rightarrow> ble_manager \<times> event list \<times> thrown option" where
  "connect m0 dev =
     (let m = m0\<lparr>device := Some dev\<rparr> in
      case gatt dev of
        None \<Rightarrow>
          (fst (simulateConnection m), snd (simulateConnection m) @ [ConnectionChange True], None)
      | Some outcome \<Rightarrow>
          if startsWith (device_id dev) (str ''demo-'') then
            (fst (simulateConnection m), snd (simulateConnection m) @ [ConnectionChange True],
             None)
          else
            (case outcome of
               ConnectFails error \<Rightarrow> connect_failed m error
             | ServiceFails error \<Rightarrow> connect_failed (m\<lparr>server := Some True\<rparr>) error
             | CharacteristicFails error \<Rightarrow>
                 connect_failed (m\<lparr>server := Some True, service := True\<rparr>) error
             | NotificationsFail error \<Rightarrow>
                 connect_failed
                   (m\<lparr>server := Some True, service := True, characteristic := True\<rparr>) error
             | GattReady \<Rightarrow>
                 (m\<lparr>server := Some True, service := True, characteristic := True\<rparr>,
                  [RawDataReceived (9989 # str '' ESP32 BLE connection established''),
                   ConnectionChange True],
                  None)))"

definition is_demo :: "ble_manager \<Rightarrow> bool" where
  "is_demo m =
     (case device m of None \<Rightarrow> False | Some d \<Rightarrow> startsWith (device_id d) (str ''demo-''))"

definition isConnected :: "ble_manager \<Rightarrow> bool" where
  "isConnected m =
     (if is_demo m then True
      else (case server m of None \<Rightarrow> False | Some flag \<Rightarrow> flag))"

definition getDeviceInfo :: "ble_manager \<Rightarrow> (jsstring \<times> jsstring \<times> bool) option" where
  "getDeviceInfo m =
     (case device m of
        None \<Rightarrow> None
      | Some d \<Rightarrow>
          Some ((case device_name d of
                   None \<Rightarrow> str ''Unknown Device''
                 | Some n \<Rightarrow> if n = [] then str ''Unknown Device'' else n),
                device_id d, isConnected m))"

subsection \<open>Notifications, collection and the simulator\<close>

text \<open>
  \<open>handleCharacteristicValueChanged\<close>: nothing happens unless the event has a value and
  collection is on.  No statement of its \<open>try\<close> block throws, so the \<open>catch\<close> clause has
  no counterpart here.  The handler changes no field of the manager.
\<close>

definition handleCharacteristicValueChanged ::
  "ble_manager \<Rightarrow> data_view option \<Rightarrow> event list" where
  "handleCharacteristicValueChanged m target_value =
     (case target_value of
        None \<Rightarrow> []
      | Some v \<Rightarrow>
          if isCollecting m then
            RawDataReceived (text_of v) #
              (case parseFrame v of
                 Sample pressureValues \<Rightarrow> [DataReceived pressureValues]
               | ParseFailure dataString \<Rightarrow>
                   [RawDataReceived (10060 # str '' Unrecognized data format: '' @ dataString)])
          else [])"

text \<open>
  \<open>sendStartCommand\<close> and \<open>sendStopCommand\<close> await a write to the characteristic; the
  parameter \<open>w\<close> is what that write throws, \<open>None\<close> when it succeeds.
\<close>

definition sendStartCommand :: "ble_manager \<Rightarrow> thrown option \<Rightarrow> event list" where
  "sendStartCommand m w =
     (if characteristic m then
        (case w of
           None \<Rightarrow> [RawDataReceived ([55357, 56545] @ str '' Sent START command to ESP32'')]
         | Some error \<Rightarrow>
             [ConsoleError (10060 # str '' Error sending start command:'') error,
              RawDataReceived
                (10060 # str '' Error sending start command: '' @ thrown_to_string error)])
      else [])"

definition sendStopCommand :: "ble_manager \<Rightarrow> thrown option \<Rightarrow> event list" where
  "sendStopCommand m w =
     (if characteristic m then
        (case w of
           None \<Rightarrow> [RawDataReceived ([55357, 56545] @ str '' Sent STOP command to ESP32'')]
         | Some error \<Rightarrow>
             [ConsoleError (10060 # str '' Error sending stop command:'') error,
              RawDataReceived
                (10060 # str '' Error sending stop command: '' @ thrown_to_string error)])
      else [])"

definition startDataCollection ::
  "ble_manager \<Rightarrow> thrown option \<Rightarrow> ble_manager \<times> event list" where
  "startDataCollection m0 w =
     (let m = m0\<lparr>isCollecting := True\<rparr>;
          started = RawDataReceived ([55357, 56960] @ str '' Starting data collection...'')
      in if \<not> characteristic m \<or> is_demo m then
           (m\<lparr>collectionInterval := True\<rparr>,
            [started,
             RawDataReceived ([55356, 57261] @ str '' Simulating ESP32 pressure data...'')])
         else (m, started # sendStartCommand m w))"

definition stopDataCollection ::
  "ble_manager \<Rightarrow> thrown option \<Rightarrow> ble_manager \<times> event list" where
  "stopDataCollection m0 w =
     (let m = m0\<lparr>isCollecting := False, collectionInterval := False\<rparr>;
          stopping = RawDataReceived ([55357, 57041] @ str '' Stopping data collection...'')
      in if characteristic m \<and> \<not> is_demo m then (m, stopping # sendStopCommand m w)
         else (m, [stopping]))"

text \<open>
  One firing of the simulator's interval.  \<open>rnd i\<close> is the value \<open>Math.random()\<close>
  returns for channel \<open>i\<close>.
\<close>

definition baseValues :: "int list" where
  "baseValues = [50, 100, 150, 200, 250, 255, 128, 64]"

definition simulated_value :: "int \<Rightarrow> real \<Rightarrow> int" where
  "simulated_value base r = max 0 (min 255 (base + \<lfloor>r * 40 - 20\<rfloor>))"

definition simulatedData :: "(nat \<Rightarrow> real) \<Rightarrow> int list" where
  "simulatedData rnd = map (\<lambda>i. simulated_value (baseValues ! i) (rnd i)) [0..<8]"

definition frame_string :: "int list \<Rightarrow> jsstring" where
  "frame_string vs = PRESSURE_LEFT @ join [44] (map number_to_string vs)"

definition simulator_tick :: "ble_manager \<Rightarrow> (nat \<Rightarrow> real) \<Rightarrow> event list" where
  "simulator_tick m rnd =
     (if \<not> collectionInterval m \<or> \<not> isCollecting m then []
      else [RawDataReceived (frame_string (simulatedData rnd)),
            DataReceived (simulatedData rnd)])"

section \<open>The measurement screen\<close>

text \<open>
  The state of the screen component: its \<open>useState\<close> cells, the timer reference and the
  manager it owns.  Cells that no operation below reads or writes (device list, scanning
  flag, notes) are left out.  \<open>maxPressurePoint\<close> is the pair of index and value.

  \<open>timerRef\<close> is \<open>None\<close> when no countdown interval is installed.  The interval callback
  is created inside \<open>startMeasurement\<close> and calls \<open>completeTest\<close> of the render in which
  the start handler was created; that closure reads the \<open>pressureData\<close> of that render.
  The installed timer therefore carries the sample list as it was when start was invoked.
\<close>

record pressure_data =
  timestamp :: jsstring
  sample_values :: "int list"

record screen =
  bleConnected :: bool
  selectedDevice :: "bluetooth_device option"
  isRecording :: bool
  timeRemaining :: int
  pressureData :: "pressure_data list"
  currentPressures :: "int list"
  averagePressures :: "int list"
  consoleLog :: "jsstring list"
  testCompleted :: bool
  maxPressurePoint :: "int \<times> int"
  averagePressure :: int
  connectionError :: jsstring
  timerRef :: "pressure_data list option"
  bleManager :: ble_manager

definition initial_screen :: screen where
  "initial_screen =
     \<lparr>bleConnected = False, selectedDevice = None, isRecording = False, timeRemaining = 20,
      pressureData = [], currentPressures = replicate 8 0, averagePressures = replicate 8 0,
      consoleLog =
        [str ''[INFO] Foot Pressure Heatmap System Initialized'',
         str ''[INFO] Ready to scan for ESP32 BLE devices'',
         str ''[INFO] Expected data format: PRESSURE_RIGHT:val1,val2,val3,val4,val5,val6,val7,val8''],
      testCompleted = False, maxPressurePoint = (0, 0), averagePressure = 0,
      connectionError = [], timerRef = None, bleManager = new_manager\<rparr>"

subsection \<open>Observers\<close>

text \<open>
  The three callbacks installed on the manager.  \<open>now\<close> is the string that
  \<open>new Date().toLocaleTimeString()\<close> returns when the callback runs.
\<close>

definition handleDataReceived :: "jsstring \<Rightarrow> int list \<Rightarrow> screen \<Rightarrow> screen" where
  "handleDataReceived now data s =
     s\<lparr>pressureData := pressureData s @ [\<lparr>timestamp = now, sample_values = data\<rparr>],
       currentPressures := data,
       consoleLog := consoleLog s @
         [[91] @ now @ str ''] PRESSURE_RIGHT: '' @ join [44] (map number_to_string data)]\<rparr>"

definition handleRawDataReceived :: "jsstring \<Rightarrow> jsstring \<Rightarrow> screen \<Rightarrow> screen" where
  "handleRawDataReceived now rawData s =
     s\<lparr>consoleLog := consoleLog s @ [[91] @ now @ str ''] '' @ rawData]\<rparr>"

definition handleConnectionChange :: "bool \<Rightarrow> screen \<Rightarrow> screen" where
  "handleConnectionChange flag s =
     (if flag then
        (case getDeviceInfo (bleManager s) of
           None \<Rightarrow> s\<lparr>bleConnected := True, connectionError := []\<rparr>
         | Some (n, i, c) \<Rightarrow>
             s\<lparr>bleConnected := True, connectionError := [],
               consoleLog := consoleLog s @
                 [str ''[INFO] Connected to '' @ n @ str '' ('' @ i @ str '')'']\<rparr>)
      else
        s\<lparr>bleConnected := False,
          consoleLog := consoleLog s @ [str ''[INFO] ESP32 device disconnected'']\<rparr>)"

fun observe :: "jsstring \<Rightarrow> event \<Rightarrow> screen \<Rightarrow> screen" where
  "observe now (DataReceived data) s = handleDataReceived now data s"
| "observe now (RawDataReceived rawData) s = handleRawDataReceived now rawData s"
| "observe now (ConnectionChange flag) s = handleConnectionChange flag s"
| "observe now (ConsoleError label error) s = s"

text \<open>
  Delivering the observer calls of one manager operation, in order.  Every operation that
  reports a connection has set the manager's device before it does so, and
  \<open>handleConnectionChange\<close> reads the manager that the screen holds at that point.
\<close>

definition dispatch :: "jsstring \<Rightarrow> event list \<Rightarrow> screen \<Rightarrow> screen" where
  "dispatch now evs s = foldl (\<lambda>s' e. observe now e s') s evs"

definition notification :: "jsstring \<Rightarrow> data_view option \<Rightarrow> screen \<Rightarrow> screen" where
  "notification now v s = dispatch now (handleCharacteristicValueChanged (bleManager s) v) s"

definition simulator_fires :: "jsstring \<Rightarrow> (nat \<Rightarrow> real) \<Rightarrow> screen \<Rightarrow> screen" where
  "simulator_fires now rnd s = dispatch now (simulator_tick (bleManager s) rnd) s"

subsection \<open>Connecting\<close>

definition connectToDevice :: "jsstring \<Rightarrow> bluetooth_device \<Rightarrow> screen \<Rightarrow> screen" where
  "connectToDevice now dev s =
     (let s1 = s\<lparr>connectionError := [],
                consoleLog := consoleLog s @
                  [str ''[INFO] Attempting to connect to ESP32: '' @
                   (case device_name dev of
                      None \<Rightarrow> str ''Unknown Device''
                    | Some n \<Rightarrow> if n = [] then str ''Unknown Device'' else n) @ str ''...'']\<rparr>;
          r = connect (bleManager s1) dev;
          s2 = dispatch now (fst (snd r)) (s1\<lparr>bleManager := fst r\<rparr>)
      in case snd (snd r) of
           None \<Rightarrow> s2\<lparr>selectedDevice := Some dev, bleConnected := True\<rparr>
         | Some error \<Rightarrow>
             (let errorMessage =
                    (case error of JsError n message \<Rightarrow> message
                     | NonError x \<Rightarrow> str ''Connection failed'')
              in s2\<lparr>connectionError := errorMessage,
                    consoleLog := consoleLog s2 @
                      [str ''[ERROR] ESP32 connection failed: '' @ errorMessage]\<rparr>))"

subsection \<open>Averages\<close>

text \<open>
  \<open>data.values.forEach((value, index) => sums[index] += value)\<close> on the eight sums.
  Every producer of samples delivers exactly eight values; values past the eighth
  channel are outside this model and dropped here.
\<close>

fun add_values :: "int list \<Rightarrow> int list \<Rightarrow> int list" where
  "add_values [] vs = []"
| "add_values (x # acc) [] = x # acc"
| "add_values (x # acc) (v # vs) = (x + v) # add_values acc vs"

definition channel_sums :: "pressure_data list \<Rightarrow> int list" where
  "channel_sums pd = foldl add_values (replicate 8 0) (map sample_values pd)"

definition channel_averages :: "pressure_data list \<Rightarrow> int list" where
  "channel_averages pd = map (\<lambda>total. math_round_div total (length pd)) (channel_sums pd)"

text \<open>
  \<open>calculateAverages\<close> and \<open>completeTest\<close>; the first argument is the \<open>pressureData\<close>
  that the closure sees.
\<close>

definition calculateAverages :: "pressure_data list \<Rightarrow> screen \<Rightarrow> screen" where
  "calculateAverages pd s =
     (if length pd = 0 then s
      else
        (let averages = channel_averages pd;
             maxValue = math_max averages;
             maxIndex = indexOf averages maxValue;
             totalAverage = math_round_div (sum_list averages) (length averages)
         in s\<lparr>averagePressures := averages,
               maxPressurePoint := (maxIndex, maxValue),
               averagePressure := totalAverage,
               consoleLog := consoleLog s @
                 [str ''[INFO] Processed '' @ number_to_string (int (length pd))
                    @ str '' data points'',
                  str ''[INFO] Average pressure: '' @ number_to_string totalAverage
                    @ str '' kPa'',
                  str ''[INFO] Max pressure: P'' @ number_to_string (maxIndex + 1)
                    @ str '' = '' @ number_to_string maxValue @ str '' kPa'',
                  str ''[INFO] Averaged pressure values: ''
                    @ join (str '', '') (map number_to_string averages)]\<rparr>))"

definition completeTest :: "pressure_data list \<Rightarrow> screen \<Rightarrow> screen" where
  "completeTest pd s =
     (if length pd > 0 then
        (let s1 = calculateAverages pd s
         in s1\<lparr>testCompleted := True,
                consoleLog := consoleLog s1 @
                  [str ''[INFO] Measurement completed. Calculating averages...'']\<rparr>)
      else
        s\<lparr>consoleLog := consoleLog s @
             [str ''[WARNING] No data collected during measurement'']\<rparr>)"

subsection \<open>The session\<close>

definition startMeasurement :: "jsstring \<Rightarrow> thrown option \<Rightarrow> screen \<Rightarrow> screen" where
  "startMeasurement now w s =
     (if \<not> bleConnected s then s
      else
        (let s1 = s\<lparr>isRecording := True, testCompleted := False, pressureData := [],
                    averagePressures := replicate 8 0,
                    consoleLog := consoleLog s @
                      [str ''[INFO] Starting 20-second measurement...'',
                       str ''[INFO] Please stand still on the pressure sensors'',
                       str ''[INFO] ESP32 will send pressure data via BLE''],
                    timeRemaining := 20,
                    timerRef := Some (pressureData s)\<rparr>;
             r = startDataCollection (bleManager s1) w
         in dispatch now (snd r) (s1\<lparr>bleManager := fst r\<rparr>)))"

text \<open>
  One firing of the countdown interval.  When the new time is not positive the callback
  schedules \<open>completeTest\<close> a tenth of a second later; the model runs it at once.
  Nothing on this path clears the interval, the recording flag or the manager's
  collecting flag.
\<close>

definition countdown_tick :: "screen \<Rightarrow> screen" where
  "countdown_tick s =
     (case timerRef s of
        None \<Rightarrow> s
      | Some captured \<Rightarrow>
          (let newTime = timeRemaining s - 1
           in if newTime \<le> 0 then completeTest captured (s\<lparr>timeRemaining := 0\<rparr>)
              else s\<lparr>timeRemaining := newTime\<rparr>))"

definition stopMeasurement :: "jsstring \<Rightarrow> thrown option \<Rightarrow> screen \<Rightarrow> screen" where
  "stopMeasurement now w s =
     (let r = stopDataCollection (bleManager s) w;
          s1 = dispatch now (snd r)
                 (s\<lparr>timerRef := None, isRecording := False, bleManager := fst r\<rparr>)
      in completeTest (pressureData s) s1)"

definition getHeatmapPressureValues :: "screen \<Rightarrow> int list" where
  "getHeatmapPressureValues s =
     (if testCompleted s then averagePressures s
      else if isRecording s then currentPressures s
      else replicate 8 0)"

text \<open>
  The session state of the specification, read off the two flags in the order in which
  \<open>getHeatmapPressureValues\<close> tests them.
\<close>

datatype session_state = Idle | Recording | Completed

definition session :: "screen \<Rightarrow> session_state" where
  "session s = (if testCompleted s then Completed else if isRecording s then Recording else Idle)"

section \<open>Reference runs\<close>

text \<open>
  Concrete inputs used below: the three samples of the end-to-end scenario, the screen
  after connecting to the mock right-foot device, and the same screen after start.
\<close>

definition three_samples :: "pressure_data list" where
  "three_samples =
    [\<lparr>timestamp = str ''10:00:01'', sample_values = [10, 20, 30, 40, 50, 60, 70, 80]\<rparr>,
     \<lparr>timestamp = str ''10:00:02'', sample_values = [20, 30, 40, 50, 60, 70, 80, 90]\<rparr>,
     \<lparr>timestamp = str ''10:00:03'', sample_values = [30, 40, 50, 60, 70, 80, 90, 100]\<rparr>]"

definition linked_screen :: screen where
  "linked_screen = connectToDevice (str ''10:00:00'') (getMockDevices ! 1) initial_screen"

definition started_screen :: screen where
  "started_screen = startMeasurement (str ''10:00:00'') None linked_screen"

text \<open>
  Two real devices whose GATT connection fails, one with a message that \<open>connect\<close>
  singles out and one with another message; a platform on which the user dismisses the
  first device chooser; one on which the first request fails and the user dismisses the
  second chooser; and one without Bluetooth.
\<close>

definition refusing_device :: bluetooth_device where
  "refusing_device =
     \<lparr>device_id = str ''Xk3fA9'', device_name = Some (str ''ESP32-FootSensor''),
      gatt = Some (ConnectFails
        (JsError (str ''NetworkError'') (str ''GATT operation not permitted.'')))\<rparr>"

definition unreachable_device :: bluetooth_device where
  "unreachable_device =
     \<lparr>device_id = str ''Xk3fA9'', device_name = Some (str ''ESP32-FootSensor''),
      gatt = Some (ConnectFails
        (JsError (str ''NetworkError'') (str ''Connection attempt failed.'')))\<rparr>"

definition cancelling_navigator :: navigator_env where
  "cancelling_navigator =
     \<lparr>bluetooth = True,
      filtered_request = Rejected
        (JsError (str ''NotFoundError'') (str ''User cancelled the requestDevice() chooser.'')),
      accept_all_request = Rejected
        (JsError (str ''NotFoundError'') (str ''User cancelled the requestDevice() chooser.''))\<rparr>"

definition rejecting_navigator :: navigator_env where
  "rejecting_navigator =
     \<lparr>bluetooth = True,
      filtered_request = Rejected
        (JsError (str ''NotFoundError'') (str ''Bluetooth adapter not available.'')),
      accept_all_request = Rejected
        (JsError (str ''NotFoundError'') (str ''User cancelled the requestDevice() chooser.''))\<rparr>"

definition no_bluetooth_navigator :: navigator_env where
  "no_bluetooth_navigator =
     \<lparr>bluetooth = False,
      filtered_request = Rejected (NonError []),
      accept_all_request = Rejected (NonError [])\<rparr>"

text \<open>
  A real device whose connection succeeds, the screen linked to it and then started, and
  three notifications that carry the samples of the end-to-end scenario as tagged text.
  A sample whose first two channels share the maximum.
\<close>

definition ready_device :: bluetooth_device where
  "ready_device =
     \<lparr>device_id = str ''Xk3fA9'', device_name = Some (str ''ESP32-FootSensor''),
      gatt = Some GattReady\<rparr>"

definition ready_screen :: screen where
  "ready_screen = connectToDevice (str ''10:00:00'') ready_device initial_screen"

definition recording_screen :: screen where
  "recording_screen = startMeasurement (str ''10:00:00'') None ready_screen"

definition three_frames :: "(jsstring \<times> data_view) list" where
  "three_frames =
    [(str ''10:00:01'',
      \<lparr>bytes = str ''PRESSURE_RIGHT:10,20,30,40,50,60,70,80'',
       text_of = str ''PRESSURE_RIGHT:10,20,30,40,50,60,70,80''\<rparr>),
     (str ''10:00:02'',
      \<lparr>bytes = str ''PRESSURE_RIGHT:20,30,40,50,60,70,80,90'',
       text_of = str ''PRESSURE_RIGHT:20,30,40,50,60,70,80,90''\<rparr>),
     (str ''10:00:03'',
      \<lparr>bytes = str ''PRESSURE_RIGHT:30,40,50,60,70,80,90,100'',
       text_of = str ''PRESSURE_RIGHT:30,40,50,60,70,80,90,100''\<rparr>)]"

definition tied_sample :: "pressure_data list" where
  "tied_sample =
     [\<lparr>timestamp = str ''10:00:01'', sample_values = [100, 100, 50, 0, 0, 0, 0, 0]\<rparr>]"

text \<open>Notifications arriving one after the other, each with its time of arrival.\<close>

definition deliver :: "(jsstring \<times> data_view) list \<Rightarrow> screen \<Rightarrow> screen" where
  "deliver fs s = foldl (\<lambda>s' f. notification (fst f) (Some (snd f)) s') s fs"

text \<open>The observer receiving a list of samples one after the other.\<close>

definition feed :: "pressure_data list \<Rightarrow> screen \<Rightarrow> screen" where
  "feed ds s = foldl (\<lambda>s' d. handleDataReceived (timestamp d) (sample_values d) s') s ds"

section \<open>Notifications outside a collection\<close>

lemma dispatch_Nil: "dispatch now [] s = s"
  by (simp add: dispatch_def)

lemma new_manager_idle: "\<not> isCollecting new_manager"
  by (simp add: new_manager_def)

lemma stop_clears_collecting: "\<not> isCollecting (fst (stopDataCollection m w))"
  by (simp add: stopDataCollection_def Let_def)

text \<open>
  Claim C10.  A notification that arrives while the manager is not collecting makes the
  handler call no observer at all: no sample and no raw-data line.  Delivered to the
  screen it leaves the whole screen state as it was, so the accumulated samples, the live
  values and the log are unchanged.  The manager is not collecting when it is created,
  and not after \<open>stopDataCollection\<close>.
\<close>

theorem notification_ignored_when_not_collecting:
  "(\<not> isCollecting (bleManager s) \<longrightarrow>
      handleCharacteristicValueChanged (bleManager s) v = [] \<and> notification now v s = s)
   \<and> \<not> isCollecting new_manager
   \<and> \<not> isCollecting (fst (stopDataCollection m w))"
  by (simp add: handleCharacteristicValueChanged_def notification_def dispatch_Nil
      new_manager_idle stop_clears_collecting split: option.splits)

theorem notification_ignored_when_not_collecting_witness:
  "\<not> isCollecting (bleManager initial_screen)
   \<and> handleCharacteristicValueChanged (bleManager initial_screen)
        (Some \<lparr>bytes = [], text_of = str ''PRESSURE_RIGHT:1,2,3,4,5,6,7,8''\<rparr>) = []
   \<and> notification (str ''10:00:00'')
        (Some \<lparr>bytes = [], text_of = str ''PRESSURE_RIGHT:1,2,3,4,5,6,7,8''\<rparr>) initial_screen
       = initial_screen"
  using notification_ignored_when_not_collecting
    [of initial_screen "Some \<lparr>bytes = [], text_of = str ''PRESSURE_RIGHT:1,2,3,4,5,6,7,8''\<rparr>"
      "str ''10:00:00''"]
  by (simp add: initial_screen_def new_manager_def)

section \<open>The maximum pressure point\<close>

lemma foldl_max_Max: "foldl max x xs = Max (set (x # xs))"
proof (induction xs arbitrary: x)
  case Nil
  then show ?case by simp
next
  case (Cons y ys)
  have "Max (set (max x y # ys)) = Max (set (x # y # ys))"
    by (cases "ys = []") (simp_all add: max.assoc)
  with Cons show ?case by simp
qed

lemma math_max_Max: "xs \<noteq> [] \<Longrightarrow> math_max xs = Max (set xs)"
  by (cases xs) (simp_all add: foldl_max_Max del: set_simps Max_insert)

lemma index_from_first:
  "v \<in> set xs \<Longrightarrow>
   \<exists>i<length xs. index_from xs v k = k + int i \<and> xs ! i = v \<and> (\<forall>j<i. xs ! j \<noteq> v)"
proof (induction xs arbitrary: k)
  case Nil
  then show ?case by simp
next
  case (Cons x xs)
  show ?case
  proof (cases "x = v")
    case True
    then show ?thesis by auto
  next
    case False
    with Cons.prems have "v \<in> set xs" by simp
    from Cons.IH[OF this, of "k + 1"] obtain i where
      i: "i < length xs" "index_from xs v (k + 1) = k + 1 + int i" "xs ! i = v"
        "\<forall>j<i. xs ! j \<noteq> v" by blast
    have "\<forall>j<Suc i. (x # xs) ! j \<noteq> v"
      using False i(4) by (auto simp: nth_Cons split: nat.splits)
    with i False show ?thesis
      by (intro exI[of _ "Suc i"]) auto
  qed
qed

lemma indexOf_first:
  assumes "v \<in> set xs"
  shows "0 \<le> indexOf xs v" "nat (indexOf xs v) < length xs" "xs ! nat (indexOf xs v) = v"
    "\<forall>j<nat (indexOf xs v). xs ! j \<noteq> v"
  using index_from_first[OF assms, of 0] by (auto simp: indexOf_def)

text \<open>
  On a non-empty list \<open>Math.max\<close> returns the greatest entry and \<open>indexOf\<close> a position
  that holds it, every earlier position holding a strictly smaller value.
\<close>

lemma math_max_indexOf_first:
  assumes "averages \<noteq> []"
  shows "math_max averages = Max (set averages)
    \<and> 0 \<le> indexOf averages (math_max averages)
    \<and> nat (indexOf averages (math_max averages)) < length averages
    \<and> averages ! nat (indexOf averages (math_max averages)) = math_max averages
    \<and> (\<forall>j<nat (indexOf averages (math_max averages)). averages ! j < math_max averages)"
proof -
  have m: "math_max averages = Max (set averages)" by (rule math_max_Max[OF assms])
  have mem: "math_max averages \<in> set averages"
    unfolding m using assms by (intro Max_in) auto
  have le: "averages ! j \<le> math_max averages" if "j < length averages" for j
    unfolding m using that by (intro Max_ge) auto
  note f = indexOf_first[OF mem]
  have "averages ! j < math_max averages" if "j < nat (indexOf averages (math_max averages))" for j
    using le[of j] f(2) f(4) that by (metis less_trans order_le_less)
  with m f show ?thesis by blast
qed

section \<open>Averages\<close>

lemma math_round_div_round:
  assumes "0 < b"
  shows "math_round_div a b = round (real_of_int a / real b)"
proof -
  have "real_of_int a / real b + 1 / 2 = real_of_int (2 * a + int b) / real_of_int (2 * int b)"
    using assms by (simp add: field_simps)
  then have "round (real_of_int a / real b)
      = \<lfloor>real_of_int (2 * a + int b) / real_of_int (2 * int b)\<rfloor>"
    by (simp add: round_def)
  also have "\<dots> = (2 * a + int b) div (2 * int b)"
    by (rule floor_divide_of_int_eq)
  finally show ?thesis by (simp add: math_round_div_def)
qed

lemma add_values_same_length:
  "length acc = length vs \<Longrightarrow> add_values acc vs = map2 (+) acc vs"
  by (induction acc vs rule: add_values.induct) simp_all

lemma foldl_add_values:
  assumes "\<forall>vs\<in>set vss. length vs = length acc"
  shows "length (foldl add_values acc vss) = length acc
    \<and> (\<forall>i<length acc. foldl add_values acc vss ! i = acc ! i + (\<Sum>vs\<leftarrow>vss. vs ! i))"
  using assms
proof (induction vss arbitrary: acc)
  case Nil
  then show ?case by simp
next
  case (Cons vs vss)
  have l: "length vs = length acc" using Cons.prems by simp
  have a: "add_values acc vs = map2 (+) acc vs"
    by (rule add_values_same_length) (simp add: l)
  have "\<forall>ws\<in>set vss. length ws = length (add_values acc vs)"
    using Cons.prems by (simp add: a l)
  from Cons.IH[OF this] show ?case
    by (simp add: a l)
qed

lemma channel_sums_nth:
  assumes "\<forall>d\<in>set pd. length (sample_values d) = 8"
  shows "length (channel_sums pd) = 8"
    and "i < 8 \<Longrightarrow> channel_sums pd ! i = (\<Sum>d\<leftarrow>pd. sample_values d ! i)"
proof -
  have h: "\<forall>vs\<in>set (map sample_values pd). length vs = length (replicate 8 (0::int))"
    using assms by simp
  note f = foldl_add_values[OF h]
  show "length (channel_sums pd) = 8" using f by (simp add: channel_sums_def)
  show "channel_sums pd ! i = (\<Sum>d\<leftarrow>pd. sample_values d ! i)" if "i < 8"
    using f that by (simp add: channel_sums_def comp_def)
qed

lemma channel_averages_nth:
  assumes "\<forall>d\<in>set pd. length (sample_values d) = 8" and "pd \<noteq> []"
  shows "length (channel_averages pd) = 8"
    and "i < 8 \<Longrightarrow> channel_averages pd ! i =
           round (real_of_int (\<Sum>d\<leftarrow>pd. sample_values d ! i) / real (length pd))"
  using channel_sums_nth[OF assms(1)] assms(2)
  by (simp_all add: channel_averages_def math_round_div_round)

lemma calculateAverages_fields:
  assumes "pd \<noteq> []"
  shows "averagePressures (calculateAverages pd s) = channel_averages pd"
    and "maxPressurePoint (calculateAverages pd s) =
           (indexOf (channel_averages pd) (math_max (channel_averages pd)),
            math_max (channel_averages pd))"
    and "averagePressure (calculateAverages pd s) =
           math_round_div (sum_list (channel_averages pd)) (length (channel_averages pd))"
    and "isRecording (calculateAverages pd s) = isRecording s"
    and "pressureData (calculateAverages pd s) = pressureData s"
  using assms by (simp_all add: calculateAverages_def Let_def)

lemma completeTest_nonempty:
  assumes "pd \<noteq> []"
  shows "testCompleted (completeTest pd s)"
    and "averagePressures (completeTest pd s) = channel_averages pd"
    and "maxPressurePoint (completeTest pd s) =
           (indexOf (channel_averages pd) (math_max (channel_averages pd)),
            math_max (channel_averages pd))"
    and "averagePressure (completeTest pd s) =
           math_round_div (sum_list (channel_averages pd)) (length (channel_averages pd))"
    and "isRecording (completeTest pd s) = isRecording s"
  using assms by (simp_all add: completeTest_def Let_def calculateAverages_fields)

text \<open>
  When \<open>completeTest\<close> reads a non-empty list of eight-channel samples, the
  screen ends with the completed flag set; each of the eight averages is the sum of that
  channel over all samples divided by the number of samples and rounded to the nearest
  integer; the overall figure is the rounded mean of those eight averages; and the
  maximum point holds the greatest average and its first index.
\<close>

lemma complete_computes_rounded_means:
  assumes "pd \<noteq> []" and "\<forall>d\<in>set pd. length (sample_values d) = 8"
  shows "testCompleted (completeTest pd s) \<and> session (completeTest pd s) = Completed
    \<and> length (averagePressures (completeTest pd s)) = 8
    \<and> (\<forall>i<8. averagePressures (completeTest pd s) ! i =
          round (real_of_int (\<Sum>d\<leftarrow>pd. sample_values d ! i) / real (length pd)))
    \<and> averagePressure (completeTest pd s) =
          round (real_of_int (sum_list (averagePressures (completeTest pd s))) / 8)
    \<and> snd (maxPressurePoint (completeTest pd s)) = Max (set (averagePressures (completeTest pd s)))
    \<and> fst (maxPressurePoint (completeTest pd s)) =
          indexOf (averagePressures (completeTest pd s))
            (Max (set (averagePressures (completeTest pd s))))"
proof -
  note c = completeTest_nonempty[OF assms(1), of s]
  note a = channel_averages_nth[OF assms(2) assms(1)]
  have ne: "channel_averages pd \<noteq> []" using a(1) by auto
  have mx: "math_max (channel_averages pd) = Max (set (channel_averages pd))"
    using ne by (rule math_max_Max)
  show ?thesis
    using c a mx by (simp add: session_def math_round_div_round)
qed

lemma replicate_8: "replicate 8 x = [x, x, x, x, x, x, x, x]"
  by (simp add: numeral_eq_Suc)

lemma three_samples_averages:
  "channel_averages three_samples = [20, 30, 40, 50, 60, 70, 80, 90]"
  by (simp add: three_samples_def channel_averages_def channel_sums_def replicate_8
      math_round_div_def)

lemma three_samples_results:
  "averagePressures (completeTest three_samples s) = [20, 30, 40, 50, 60, 70, 80, 90]"
  "averagePressure (completeTest three_samples s) = 55"
  "maxPressurePoint (completeTest three_samples s) = (7, 90)"
  using completeTest_nonempty[of three_samples s]
  by (simp_all add: three_samples_averages math_round_div_def indexOf_def)
     (simp_all add: three_samples_def)

lemma complete_three_samples:
  "three_samples \<noteq> [] \<and> map (\<lambda>d. length (sample_values d)) three_samples = [8, 8, 8]
   \<and> testCompleted (completeTest three_samples initial_screen)
   \<and> averagePressures (completeTest three_samples initial_screen)
       = [20, 30, 40, 50, 60, 70, 80, 90]
   \<and> averagePressure (completeTest three_samples initial_screen) = 55
   \<and> maxPressurePoint (completeTest three_samples initial_screen) = (7, 90)"
  using complete_computes_rounded_means[of three_samples initial_screen]
  by (simp add: three_samples_results) (simp add: three_samples_def)

section \<open>The session: start, countdown, stop\<close>

lemma observe_no_data:
  assumes "\<forall>d. e \<noteq> DataReceived d"
  shows "pressureData (observe now e s) = pressureData s"
    and "isRecording (observe now e s) = isRecording s"
    and "testCompleted (observe now e s) = testCompleted s"
    and "timeRemaining (observe now e s) = timeRemaining s"
    and "timerRef (observe now e s) = timerRef s"
    and "averagePressures (observe now e s) = averagePressures s"
    and "bleManager (observe now e s) = bleManager s"
  using assms
  by (cases e; simp add: handleRawDataReceived_def handleConnectionChange_def
      split: option.splits)+

lemma dispatch_no_data:
  assumes "\<forall>e\<in>set evs. \<forall>d. e \<noteq> DataReceived d"
  shows "pressureData (dispatch now evs s) = pressureData s
    \<and> isRecording (dispatch now evs s) = isRecording s
    \<and> testCompleted (dispatch now evs s) = testCompleted s
    \<and> timeRemaining (dispatch now evs s) = timeRemaining s
    \<and> timerRef (dispatch now evs s) = timerRef s
    \<and> averagePressures (dispatch now evs s) = averagePressures s
    \<and> bleManager (dispatch now evs s) = bleManager s"
  using assms unfolding dispatch_def
proof (induction evs arbitrary: s)
  case Nil
  then show ?case by simp
next
  case (Cons e evs)
  have e: "\<forall>d. e \<noteq> DataReceived d" using Cons.prems by simp
  have r: "\<forall>e\<in>set evs. \<forall>d. e \<noteq> DataReceived d" using Cons.prems by simp
  show ?case
    using Cons.IH[OF r, of "observe now e s"] observe_no_data[OF e, of now s] by simp
qed

lemma startDataCollection_events:
  "\<forall>e\<in>set (snd (startDataCollection m w)). \<forall>d. e \<noteq> DataReceived d"
  by (auto simp: startDataCollection_def sendStartCommand_def Let_def split: option.splits)

lemma stopDataCollection_events:
  "\<forall>e\<in>set (snd (stopDataCollection m w)). \<forall>d. e \<noteq> DataReceived d"
  by (auto simp: stopDataCollection_def sendStopCommand_def Let_def split: option.splits)

lemma startDataCollection_collecting: "isCollecting (fst (startDataCollection m w))"
  by (simp add: startDataCollection_def Let_def)

lemma startMeasurement_fields:
  assumes "bleConnected s"
  shows "isRecording (startMeasurement now w s)"
    and "\<not> testCompleted (startMeasurement now w s)"
    and "pressureData (startMeasurement now w s) = []"
    and "averagePressures (startMeasurement now w s) = replicate 8 0"
    and "timeRemaining (startMeasurement now w s) = 20"
    and "timerRef (startMeasurement now w s) = Some (pressureData s)"
    and "isCollecting (bleManager (startMeasurement now w s))"
  using assms dispatch_no_data[OF startDataCollection_events]
  by (simp_all add: startMeasurement_def Let_def startDataCollection_collecting)

lemma stopMeasurement_eq:
  "stopMeasurement now w s =
     completeTest (pressureData s)
       (dispatch now (snd (stopDataCollection (bleManager s) w))
          (s\<lparr>timerRef := None, isRecording := False,
             bleManager := fst (stopDataCollection (bleManager s) w)\<rparr>))"
  by (simp add: stopMeasurement_def Let_def)

lemma completeTest_keeps:
  "isRecording (completeTest pd s) = isRecording s"
  "pressureData (completeTest pd s) = pressureData s"
  "timerRef (completeTest pd s) = timerRef s"
  "timeRemaining (completeTest pd s) = timeRemaining s"
  "bleManager (completeTest pd s) = bleManager s"
  by (simp_all add: completeTest_def calculateAverages_def Let_def)

lemma completeTest_empty:
  "testCompleted (completeTest [] s) = testCompleted s"
  "averagePressures (completeTest [] s) = averagePressures s"
  "maxPressurePoint (completeTest [] s) = maxPressurePoint s"
  "averagePressure (completeTest [] s) = averagePressure s"
  "consoleLog (completeTest [] s) =
     consoleLog s @ [str ''[WARNING] No data collected during measurement'']"
  by (simp_all add: completeTest_def)

lemma stopMeasurement_fields:
  "\<not> isRecording (stopMeasurement now w s)"
  "timerRef (stopMeasurement now w s) = None"
  "\<not> isCollecting (bleManager (stopMeasurement now w s))"
  "pressureData (stopMeasurement now w s) = pressureData s"
  using dispatch_no_data[OF stopDataCollection_events]
  by (simp_all add: stopMeasurement_eq completeTest_keeps stop_clears_collecting)

lemma stopMeasurement_empty:
  assumes "pressureData s = []"
  shows "testCompleted (stopMeasurement now w s) = testCompleted s"
    and "averagePressures (stopMeasurement now w s) = averagePressures s"
    and "last (consoleLog (stopMeasurement now w s)) =
          str ''[WARNING] No data collected during measurement''"
  using assms dispatch_no_data[OF stopDataCollection_events]
  by (simp_all add: stopMeasurement_eq completeTest_empty)

lemma countdown_tick_running:
  assumes "timerRef s = Some captured" and "1 < timeRemaining s"
  shows "countdown_tick s = s\<lparr>timeRemaining := timeRemaining s - 1\<rparr>"
  using assms by (simp add: countdown_tick_def Let_def)

lemma countdown_tick_expires:
  assumes "timerRef s = Some captured" and "timeRemaining s \<le> 1"
  shows "countdown_tick s = completeTest captured (s\<lparr>timeRemaining := 0\<rparr>)"
  using assms by (simp add: countdown_tick_def Let_def)

lemma countdown_expiry:
  assumes "timerRef s = Some captured" and "timeRemaining s = int (Suc n)"
  shows "(countdown_tick ^^ Suc n) s = completeTest captured (s\<lparr>timeRemaining := 0\<rparr>)"
  using assms
proof (induction n arbitrary: s)
  case 0
  then show ?case by (simp add: countdown_tick_expires)
next
  case (Suc n)
  have t: "countdown_tick s = s\<lparr>timeRemaining := timeRemaining s - 1\<rparr>"
    using Suc.prems by (intro countdown_tick_running) auto
  have "(countdown_tick ^^ Suc n) (countdown_tick s)
      = completeTest captured ((countdown_tick s)\<lparr>timeRemaining := 0\<rparr>)"
    by (rule Suc.IH) (use Suc.prems t in auto)
  then show ?case
    by (simp add: t funpow_swap1)
qed

lemma linked_fields:
  "bleConnected linked_screen" "pressureData linked_screen = []"
  by (simp_all add: linked_screen_def connectToDevice_def Let_def connect_def getMockDevices_def
      simulateConnection_def dispatch_def handleConnectionChange_def handleRawDataReceived_def
      getDeviceInfo_def initial_screen_def new_manager_def split: option.splits)

lemma started_fields:
  "isRecording started_screen" "\<not> testCompleted started_screen"
  "pressureData started_screen = []" "averagePressures started_screen = replicate 8 0"
  "timeRemaining started_screen = 20" "timerRef started_screen = Some []"
  "isCollecting (bleManager started_screen)"
  using startMeasurement_fields[OF linked_fields(1), of "str ''10:00:00''" None]
  by (simp_all add: started_screen_def linked_fields)

lemma expiry_of_started:
  "(countdown_tick ^^ 20) started_screen
     = completeTest [] (started_screen\<lparr>timeRemaining := 0\<rparr>)"
proof -
  have "(countdown_tick ^^ Suc 19) started_screen
      = completeTest [] (started_screen\<lparr>timeRemaining := 0\<rparr>)"
    by (rule countdown_expiry) (simp_all add: started_fields)
  then show ?thesis by simp
qed

lemma feed_pressureData: "pressureData (feed ds s) = pressureData s @ ds"
  unfolding feed_def
  by (induction ds arbitrary: s) (simp_all add: handleDataReceived_def)

text \<open>
  The end-to-end scenario: start on the linked screen, receive the three samples, stop
  early.
\<close>

lemma end_to_end_three_samples:
  "testCompleted (stopMeasurement now None (feed three_samples started_screen))"
  "\<not> isRecording (stopMeasurement now None (feed three_samples started_screen))"
  "averagePressures (stopMeasurement now None (feed three_samples started_screen))
     = [20, 30, 40, 50, 60, 70, 80, 90]"
  "averagePressure (stopMeasurement now None (feed three_samples started_screen)) = 55"
  "maxPressurePoint (stopMeasurement now None (feed three_samples started_screen)) = (7, 90)"
proof -
  have pd: "pressureData (feed three_samples started_screen) = three_samples"
    by (simp add: feed_pressureData started_fields)
  have ne: "three_samples \<noteq> []" by (simp add: three_samples_def)
  show "testCompleted (stopMeasurement now None (feed three_samples started_screen))"
    by (simp add: stopMeasurement_eq pd completeTest_nonempty[OF ne])
  show "\<not> isRecording (stopMeasurement now None (feed three_samples started_screen))"
    by (rule stopMeasurement_fields)
  show "averagePressures (stopMeasurement now None (feed three_samples started_screen))
     = [20, 30, 40, 50, 60, 70, 80, 90]"
    by (simp add: stopMeasurement_eq pd three_samples_results)
  show "averagePressure (stopMeasurement now None (feed three_samples started_screen)) = 55"
    by (simp add: stopMeasurement_eq pd three_samples_results)
  show "maxPressurePoint (stopMeasurement now None (feed three_samples started_screen)) = (7, 90)"
    by (simp add: stopMeasurement_eq pd three_samples_results)
qed

lemma observe_keeps_connected:
  assumes "\<forall>b. e \<noteq> ConnectionChange b"
  shows "bleConnected (observe now e s) = bleConnected s"
proof (cases e)
  case (ConnectionChange b)
  with assms show ?thesis by blast
qed (simp_all add: handleRawDataReceived_def handleDataReceived_def)

lemma dispatch_raw_connected:
  assumes "\<forall>e\<in>set evs. \<forall>b. e \<noteq> ConnectionChange b"
  shows "bleConnected (dispatch now evs s) = bleConnected s"
  using assms unfolding dispatch_def
  by (induction evs arbitrary: s) (simp_all add: observe_keeps_connected)

lemma startDataCollection_raw:
  "\<forall>e\<in>set (snd (startDataCollection m w)). \<forall>b. e \<noteq> ConnectionChange b"
  by (auto simp: startDataCollection_def sendStartCommand_def Let_def split: option.splits)

lemma stopDataCollection_raw:
  "\<forall>e\<in>set (snd (stopDataCollection m w)). \<forall>b. e \<noteq> ConnectionChange b"
  by (auto simp: stopDataCollection_def sendStopCommand_def Let_def split: option.splits)

lemma completeTest_connected: "bleConnected (completeTest pd s) = bleConnected s"
  by (simp add: completeTest_def calculateAverages_def Let_def)

lemma stopMeasurement_connected: "bleConnected (stopMeasurement now w s) = bleConnected s"
  by (simp add: stopMeasurement_eq completeTest_connected
      dispatch_raw_connected[OF stopDataCollection_raw])

lemma startMeasurement_connected:
  "bleConnected (startMeasurement now w s) = bleConnected s"
  by (simp add: startMeasurement_def Let_def dispatch_raw_connected[OF startDataCollection_raw])

lemma feed_connected: "bleConnected (feed ds s) = bleConnected s"
  unfolding feed_def
  by (induction ds arbitrary: s) (simp_all add: handleDataReceived_def)

lemma feed_keeps:
  "timerRef (feed ds s) = timerRef s" "timeRemaining (feed ds s) = timeRemaining s"
  "isRecording (feed ds s) = isRecording s" "testCompleted (feed ds s) = testCompleted s"
  unfolding feed_def
  by (induction ds arbitrary: s) (simp_all add: handleDataReceived_def)

text \<open>
  What the captured sample list means for the countdown path.  In a first session the
  list captured at start is empty, so expiry reports that no data was collected even
  after samples have arrived.
\<close>

lemma expiry_reads_captured_samples:
  "\<not> testCompleted ((countdown_tick ^^ 20) (feed three_samples started_screen))"
  "pressureData ((countdown_tick ^^ 20) (feed three_samples started_screen)) = three_samples"
  "last (consoleLog ((countdown_tick ^^ 20) (feed three_samples started_screen)))
     = str ''[WARNING] No data collected during measurement''"
proof -
  have "(countdown_tick ^^ Suc 19) (feed three_samples started_screen)
      = completeTest [] ((feed three_samples started_screen)\<lparr>timeRemaining := 0\<rparr>)"
    by (rule countdown_expiry) (simp_all add: feed_keeps started_fields)
  then have e: "(countdown_tick ^^ 20) (feed three_samples started_screen)
      = completeTest [] ((feed three_samples started_screen)\<lparr>timeRemaining := 0\<rparr>)"
    by simp
  show "\<not> testCompleted ((countdown_tick ^^ 20) (feed three_samples started_screen))"
    by (simp add: e completeTest_empty feed_keeps started_fields)
  show "pressureData ((countdown_tick ^^ 20) (feed three_samples started_screen)) = three_samples"
    by (simp add: e completeTest_keeps feed_pressureData started_fields)
  show "last (consoleLog ((countdown_tick ^^ 20) (feed three_samples started_screen)))
     = str ''[WARNING] No data collected during measurement''"
    by (simp add: e completeTest_empty)
qed

text \<open>
  In a second session the list captured at start is that of the session before: with no
  sample at all in the second session, expiry completes it with the earlier averages.
\<close>

lemma second_session_expiry_uses_previous_samples:
  "pressureData ((countdown_tick ^^ 20) (startMeasurement t None
      (stopMeasurement now None (feed three_samples started_screen)))) = []"
  "testCompleted ((countdown_tick ^^ 20) (startMeasurement t None
      (stopMeasurement now None (feed three_samples started_screen))))"
  "averagePressures ((countdown_tick ^^ 20) (startMeasurement t None
      (stopMeasurement now None (feed three_samples started_screen))))
     = [20, 30, 40, 50, 60, 70, 80, 90]"
proof -
  let ?done = "stopMeasurement now None (feed three_samples started_screen)"
  let ?again = "startMeasurement t None ?done"
  have conn: "bleConnected ?done"
    by (simp add: stopMeasurement_connected feed_connected started_screen_def
        startMeasurement_connected linked_fields)
  have pd: "pressureData ?done = three_samples"
    by (simp add: stopMeasurement_fields feed_pressureData started_fields)
  note f = startMeasurement_fields[OF conn, of t None]
  have "(countdown_tick ^^ Suc 19) ?again
      = completeTest three_samples (?again\<lparr>timeRemaining := 0\<rparr>)"
    by (rule countdown_expiry) (simp_all add: f pd)
  then have e: "(countdown_tick ^^ 20) ?again
      = completeTest three_samples (?again\<lparr>timeRemaining := 0\<rparr>)"
    by simp
  have ne: "three_samples \<noteq> []" by (simp add: three_samples_def)
  show "pressureData ((countdown_tick ^^ 20) ?again) = []"
    by (simp add: e completeTest_keeps f)
  show "testCompleted ((countdown_tick ^^ 20) ?again)"
    by (simp add: e completeTest_nonempty[OF ne])
  show "averagePressures ((countdown_tick ^^ 20) ?again) = [20, 30, 40, 50, 60, 70, 80, 90]"
    by (simp add: e three_samples_results)
qed

text \<open>
  Claim C5.  With an empty list to read \<open>completeTest\<close> itself behaves as claimed: it
  logs the warning and leaves the completed flag and the averages alone (lemma
  \<open>completeTest_empty\<close>).  It does not touch the recording flag either, and on the
  countdown path nothing else does: after start on the linked screen and twenty ticks
  without a sample the session is not completed, has no averages and has logged the
  warning, but it is still recording and the manager is still collecting.
\<close>

theorem empty_session_expiry_keeps_recording:
  "pressureData ((countdown_tick ^^ 20) started_screen) = []
   \<and> \<not> testCompleted ((countdown_tick ^^ 20) started_screen)
   \<and> averagePressures ((countdown_tick ^^ 20) started_screen) = replicate 8 0
   \<and> last (consoleLog ((countdown_tick ^^ 20) started_screen))
        = str ''[WARNING] No data collected during measurement''
   \<and> isRecording ((countdown_tick ^^ 20) started_screen)
   \<and> session ((countdown_tick ^^ 20) started_screen) = Recording
   \<and> isCollecting (bleManager ((countdown_tick ^^ 20) started_screen))"
  by (simp add: expiry_of_started completeTest_empty completeTest_keeps started_fields
      session_def)

text \<open>
  Claim C8.  Stop right after start and countdown expiry, both without a sample, agree on
  the outcome of the measurement (not completed, averages all zero, the same warning as
  the last log line) but not on the recording status: the stop path ends idle with the
  manager no longer collecting, the expiry path ends recording with the manager still
  collecting and the timer still installed.
\<close>

theorem stop_and_expiry_differ_in_recording:
  "\<not> testCompleted (stopMeasurement now None started_screen)
   \<and> \<not> testCompleted ((countdown_tick ^^ 20) started_screen)
   \<and> averagePressures (stopMeasurement now None started_screen) = replicate 8 0
   \<and> averagePressures ((countdown_tick ^^ 20) started_screen) = replicate 8 0
   \<and> last (consoleLog (stopMeasurement now None started_screen))
        = last (consoleLog ((countdown_tick ^^ 20) started_screen))
   \<and> \<not> isRecording (stopMeasurement now None started_screen)
   \<and> isRecording ((countdown_tick ^^ 20) started_screen)
   \<and> session (stopMeasurement now None started_screen) = Idle
   \<and> session ((countdown_tick ^^ 20) started_screen) = Recording
   \<and> \<not> isCollecting (bleManager (stopMeasurement now None started_screen))
   \<and> isCollecting (bleManager ((countdown_tick ^^ 20) started_screen))
   \<and> timerRef (stopMeasurement now None started_screen) = None
   \<and> timerRef ((countdown_tick ^^ 20) started_screen) = Some []"
  by (simp add: expiry_of_started completeTest_empty completeTest_keeps started_fields
      stopMeasurement_fields stopMeasurement_empty session_def)

section \<open>Discovery\<close>

lemma unsupported_not_cancelled:
  "\<not> message_includes unsupported_error (str ''User cancelled'')"
  by (simp add: message_includes_def unsupported_error_def str_def)

text \<open>
  Claim C6, as the code has it.  When the platform has no Bluetooth support, or when both
  device requests are rejected and the first rejection does not mention \<open>User
  cancelled\<close>, \<open>scanForDevices\<close> returns the two mock devices.
\<close>

theorem total_discovery_failure_gives_mock_devices:
  assumes "\<not> bluetooth nav \<or>
      (filtered_request nav = Rejected e1 \<and> accept_all_request nav = Rejected e2
       \<and> \<not> message_includes e1 (str ''User cancelled''))"
  shows "scanForDevices nav = Inr getMockDevices"
  using assms unsupported_not_cancelled
  by (auto simp: scanForDevices_def split: request_outcome.splits)

theorem total_discovery_failure_gives_mock_devices_witness:
  "\<not> bluetooth no_bluetooth_navigator
   \<and> scanForDevices no_bluetooth_navigator = Inr getMockDevices
   \<and> bluetooth rejecting_navigator
   \<and> scanForDevices rejecting_navigator = Inr getMockDevices"
  using total_discovery_failure_gives_mock_devices[of no_bluetooth_navigator]
    total_discovery_failure_gives_mock_devices[of rejecting_navigator
      "JsError (str ''NotFoundError'') (str ''Bluetooth adapter not available.'')"
      "JsError (str ''NotFoundError'') (str ''User cancelled the requestDevice() chooser.'')"]
  by (simp add: no_bluetooth_navigator_def rejecting_navigator_def message_includes_def str_def)

text \<open>
  Claim C6 as stated fails: when the user dismisses the first chooser, whose rejection
  reads \<open>User cancelled the requestDevice() chooser.\<close>, the scan throws
  \<open>Device selection cancelled by user\<close> to its caller and returns no device list.
\<close>

theorem user_cancel_is_thrown:
  "scanForDevices cancelling_navigator = Inl cancelled_error
   \<and> scanForDevices cancelling_navigator \<noteq> Inr getMockDevices"
  by (simp add: scanForDevices_def cancelling_navigator_def message_includes_def str_def)

text \<open>The throw in general: any first rejection that mentions \<open>User cancelled\<close>.\<close>

lemma first_cancel_is_rethrown:
  assumes "bluetooth nav" and "filtered_request nav = Rejected e"
    and "message_includes e (str ''User cancelled'')"
  shows "scanForDevices nav = Inl cancelled_error"
  using assms by (simp add: scanForDevices_def)

section \<open>Connecting\<close>

lemma connect_failed_fallback:
  assumes "\<not> message_includes e (str ''GATT operation not permitted'')"
    and "\<not> message_includes e (str ''Service not found'')"
    and "\<not> message_includes e (str ''Characteristic not found'')"
  shows "connect_failed m e =
     (m\<lparr>device := Some demo_device\<rparr>,
      [ConsoleError (str ''Error connecting to ESP32:'') e,
       ConnectionChange True,
       RawDataReceived ([55356, 57261] @ str '' Demo mode activated - simulated ESP32 data''),
       RawDataReceived ([9888, 65039] @ str '' Using demo mode - ESP32 connection failed'')],
      None)"
  using assms by (simp add: connect_failed_def simulateConnection_def)

text \<open>The specific error that the \<open>catch\<close> clause throws for a guarded message.\<close>

lemma connect_failed_rethrows:
  assumes "message_includes e (str ''GATT operation not permitted'')
      \<or> message_includes e (str ''Service not found'')
      \<or> message_includes e (str ''Characteristic not found'')"
  shows "connect_failed m e =
     (m, [ConsoleError (str ''Error connecting to ESP32:'') e],
      Some (JsError (str ''Error'')
        (if message_includes e (str ''GATT operation not permitted'') then
           str ''Device connection failed. Make sure the ESP32 is advertising and not connected to another device.''
         else if message_includes e (str ''Service not found'') then
           str ''ESP32 service not found. Please check that your ESP32 is running the correct firmware with service UUID: ''
             @ SERVICE_UUID
         else
           str ''ESP32 characteristic not found. Please verify the characteristic UUID: ''
             @ CHARACTERISTIC_UUID)))"
  using assms by (auto simp: connect_failed_def)

lemma demo_device_is_demo: "startsWith (device_id demo_device) (str ''demo-'')"
  by (simp add: demo_device_def str_def)

lemma is_demo_demo_device: "device m = Some demo_device \<Longrightarrow> is_demo m"
  by (simp add: is_demo_def demo_device_is_demo)

lemma connect_real_failure:
  assumes "gatt dev = Some outcome" and "\<not> startsWith (device_id dev) (str ''demo-'')"
    and "outcome = ConnectFails e \<or> outcome = ServiceFails e
         \<or> outcome = CharacteristicFails e \<or> outcome = NotificationsFail e"
    and "\<not> message_includes e (str ''GATT operation not permitted'')"
    and "\<not> message_includes e (str ''Service not found'')"
    and "\<not> message_includes e (str ''Characteristic not found'')"
  shows "device (fst (connect m dev)) = Some demo_device"
    and "fst (snd (connect m dev)) =
      [ConsoleError (str ''Error connecting to ESP32:'') e,
       ConnectionChange True,
       RawDataReceived ([55356, 57261] @ str '' Demo mode activated - simulated ESP32 data''),
       RawDataReceived ([9888, 65039] @ str '' Using demo mode - ESP32 connection failed'')]"
    and "snd (snd (connect m dev)) = None"
  using assms(1,2,3) connect_failed_fallback[OF assms(4,5,6)]
  by (auto simp: connect_def Let_def)

lemma connect_real_rethrow:
  assumes "gatt dev = Some outcome" and "\<not> startsWith (device_id dev) (str ''demo-'')"
    and "outcome = ConnectFails e \<or> outcome = ServiceFails e
         \<or> outcome = CharacteristicFails e \<or> outcome = NotificationsFail e"
    and "message_includes e (str ''GATT operation not permitted'')
      \<or> message_includes e (str ''Service not found'')
      \<or> message_includes e (str ''Characteristic not found'')"
  shows "device (fst (connect m dev)) = Some dev"
    and "fst (snd (connect m dev)) = [ConsoleError (str ''Error connecting to ESP32:'') e]"
    and "snd (snd (connect m dev)) =
      Some (JsError (str ''Error'')
        (if message_includes e (str ''GATT operation not permitted'') then
           str ''Device connection failed. Make sure the ESP32 is advertising and not connected to another device.''
         else if message_includes e (str ''Service not found'') then
           str ''ESP32 service not found. Please check that your ESP32 is running the correct firmware with service UUID: ''
             @ SERVICE_UUID
         else
           str ''ESP32 characteristic not found. Please verify the characteristic UUID: ''
             @ CHARACTERISTIC_UUID))"
  using assms(1,2,3) connect_failed_rethrows[OF assms(4)]
  by (auto simp: connect_def Let_def)

lemma start_in_demo:
  assumes "is_demo m"
  shows "startDataCollection m w =
     (m\<lparr>isCollecting := True, collectionInterval := True\<rparr>,
      [RawDataReceived ([55357, 56960] @ str '' Starting data collection...''),
       RawDataReceived ([55356, 57261] @ str '' Simulating ESP32 pressure data...'')])"
  using assms by (simp add: startDataCollection_def Let_def is_demo_def)

lemma connect_events_no_data:
  "\<forall>e\<in>set (fst (snd (connect m dev))). \<forall>d. e \<noteq> DataReceived d"
  by (auto simp: connect_def connect_failed_def simulateConnection_def Let_def
      split: option.splits gatt_outcome.splits)

lemma connectToDevice_manager:
  "bleManager (connectToDevice now dev s) = fst (connect (bleManager s) dev)"
  using dispatch_no_data[OF connect_events_no_data]
  by (simp add: connectToDevice_def Let_def split: option.splits)

lemma connectToDevice_resolved:
  assumes "snd (snd (connect (bleManager s) dev)) = None"
  shows "bleConnected (connectToDevice now dev s)"
  using assms by (simp add: connectToDevice_def Let_def)

lemma connectToDevice_thrown:
  assumes "fst (snd (connect (bleManager s) dev)) = [ConsoleError l e]"
    and "snd (snd (connect (bleManager s) dev)) = Some (JsError n msg)"
  shows "bleConnected (connectToDevice now dev s) = bleConnected s"
    and "connectionError (connectToDevice now dev s) = msg"
    and "last (consoleLog (connectToDevice now dev s))
          = str ''[ERROR] ESP32 connection failed: '' @ msg"
  using assms by (simp_all add: connectToDevice_def Let_def dispatch_def)

lemma fallback_events_error:
  "connectionError
     (dispatch now
        [ConsoleError l e, ConnectionChange True, RawDataReceived a, RawDataReceived b] s) = []"
  by (simp add: dispatch_def handleConnectionChange_def handleRawDataReceived_def
      split: option.splits)

lemma startMeasurement_manager:
  assumes "bleConnected s"
  shows "bleManager (startMeasurement now w s) = fst (startDataCollection (bleManager s) w)"
  using assms dispatch_no_data[OF startDataCollection_events]
  by (simp add: startMeasurement_def Let_def)

lemma simulator_fires_armed:
  assumes "collectionInterval (bleManager s)" and "isCollecting (bleManager s)"
  shows "pressureData (simulator_fires now rnd s)
    = pressureData s @ [\<lparr>timestamp = now, sample_values = simulatedData rnd\<rparr>]"
  using assms
  by (simp add: simulator_fires_def simulator_tick_def dispatch_def handleRawDataReceived_def
      handleDataReceived_def)

text \<open>
  Claim C3, as the code has it.  Take a real device whose connection fails at any of the
  four awaited steps with the value \<open>e\<close>; in every case \<open>e\<close> itself is written to the
  console by \<open>console.error\<close>.

  If the message of \<open>e\<close> contains none of \<open>GATT operation not permitted\<close>, \<open>Service not
  found\<close>, \<open>Characteristic not found\<close>, then \<open>connect\<close> returns normally with the manager
  on the demo device: \<open>isConnected\<close> holds, the observers get a connected event, the demo
  notice and the fixed line about the failed connection, the screen is connected with an
  empty error field, and a following start records with the simulator armed, whose next
  firing delivers a sample.

  If the message contains one of the three, \<open>connect\<close> throws the specific error for the
  first that it contains, keeps the real device, makes no observer call, and the screen
  shows the thrown message with its connection flag unchanged.
\<close>

theorem connect_failure_falls_back_to_demo:
  assumes "gatt dev = Some outcome" and "\<not> startsWith (device_id dev) (str ''demo-'')"
    and "outcome = ConnectFails e \<or> outcome = ServiceFails e
         \<or> outcome = CharacteristicFails e \<or> outcome = NotificationsFail e"
  shows "(\<not> message_includes e (str ''GATT operation not permitted'')
      \<and> \<not> message_includes e (str ''Service not found'')
      \<and> \<not> message_includes e (str ''Characteristic not found'') \<longrightarrow>
        snd (snd (connect (bleManager s) dev)) = None
      \<and> device (fst (connect (bleManager s) dev)) = Some demo_device
      \<and> isConnected (fst (connect (bleManager s) dev))
      \<and> fst (snd (connect (bleManager s) dev)) =
          [ConsoleError (str ''Error connecting to ESP32:'') e,
           ConnectionChange True,
           RawDataReceived ([55356, 57261] @ str '' Demo mode activated - simulated ESP32 data''),
           RawDataReceived ([9888, 65039] @ str '' Using demo mode - ESP32 connection failed'')]
      \<and> bleConnected (connectToDevice now dev s)
      \<and> connectionError (connectToDevice now dev s) = []
      \<and> isRecording (startMeasurement t w (connectToDevice now dev s))
      \<and> collectionInterval (bleManager (startMeasurement t w (connectToDevice now dev s)))
      \<and> isCollecting (bleManager (startMeasurement t w (connectToDevice now dev s)))
      \<and> pressureData (simulator_fires t' rnd (startMeasurement t w (connectToDevice now dev s)))
          = [\<lparr>timestamp = t', sample_values = simulatedData rnd\<rparr>])
    \<and> (message_includes e (str ''GATT operation not permitted'')
      \<or> message_includes e (str ''Service not found'')
      \<or> message_includes e (str ''Characteristic not found'') \<longrightarrow>
        snd (snd (connect (bleManager s) dev)) =
          Some (JsError (str ''Error'')
            (if message_includes e (str ''GATT operation not permitted'') then
               str ''Device connection failed. Make sure the ESP32 is advertising and not connected to another device.''
             else if message_includes e (str ''Service not found'') then
               str ''ESP32 service not found. Please check that your ESP32 is running the correct firmware with service UUID: ''
                 @ SERVICE_UUID
             else
               str ''ESP32 characteristic not found. Please verify the characteristic UUID: ''
                 @ CHARACTERISTIC_UUID))
      \<and> device (fst (connect (bleManager s) dev)) = Some dev
      \<and> \<not> is_demo (fst (connect (bleManager s) dev))
      \<and> fst (snd (connect (bleManager s) dev))
          = [ConsoleError (str ''Error connecting to ESP32:'') e]
      \<and> bleConnected (connectToDevice now dev s) = bleConnected s
      \<and> connectionError (connectToDevice now dev s) =
          (if message_includes e (str ''GATT operation not permitted'') then
             str ''Device connection failed. Make sure the ESP32 is advertising and not connected to another device.''
           else if message_includes e (str ''Service not found'') then
             str ''ESP32 service not found. Please check that your ESP32 is running the correct firmware with service UUID: ''
               @ SERVICE_UUID
           else
             str ''ESP32 characteristic not found. Please verify the characteristic UUID: ''
               @ CHARACTERISTIC_UUID))"
proof (intro conjI impI)
  assume n: "\<not> message_includes e (str ''GATT operation not permitted'')
      \<and> \<not> message_includes e (str ''Service not found'')
      \<and> \<not> message_includes e (str ''Characteristic not found'')"
  then have n1: "\<not> message_includes e (str ''GATT operation not permitted'')"
    and n2: "\<not> message_includes e (str ''Service not found'')"
    and n3: "\<not> message_includes e (str ''Characteristic not found'')" by simp_all
  note c = connect_real_failure[OF assms n1 n2 n3, of "bleManager s"]
  have demo: "is_demo (fst (connect (bleManager s) dev))"
    using c(1) by (rule is_demo_demo_device)
  have conn: "bleConnected (connectToDevice now dev s)"
    using c(3) by (rule connectToDevice_resolved)
  have mgr: "bleManager (startMeasurement t w (connectToDevice now dev s))
      = fst (startDataCollection (fst (connect (bleManager s) dev)) w)"
    by (simp add: startMeasurement_manager[OF conn] connectToDevice_manager)
  have armed: "collectionInterval (bleManager (startMeasurement t w (connectToDevice now dev s)))"
    "isCollecting (bleManager (startMeasurement t w (connectToDevice now dev s)))"
    by (simp_all add: mgr start_in_demo[OF demo])
  show "snd (snd (connect (bleManager s) dev)) = None" by (rule c(3))
  show "device (fst (connect (bleManager s) dev)) = Some demo_device" by (rule c(1))
  show "isConnected (fst (connect (bleManager s) dev))"
    using demo by (simp add: isConnected_def)
  show "fst (snd (connect (bleManager s) dev)) =
          [ConsoleError (str ''Error connecting to ESP32:'') e,
           ConnectionChange True,
           RawDataReceived ([55356, 57261] @ str '' Demo mode activated - simulated ESP32 data''),
           RawDataReceived ([9888, 65039] @ str '' Using demo mode - ESP32 connection failed'')]"
    by (rule c(2))
  show "bleConnected (connectToDevice now dev s)" by (rule conn)
  show "connectionError (connectToDevice now dev s) = []"
    using c(2,3) by (simp add: connectToDevice_def Let_def fallback_events_error)
  show "isRecording (startMeasurement t w (connectToDevice now dev s))"
    by (rule startMeasurement_fields(1)[OF conn])
  show "collectionInterval (bleManager (startMeasurement t w (connectToDevice now dev s)))"
    by (rule armed(1))
  show "isCollecting (bleManager (startMeasurement t w (connectToDevice now dev s)))"
    by (rule armed(2))
  show "pressureData (simulator_fires t' rnd (startMeasurement t w (connectToDevice now dev s)))
        = [\<lparr>timestamp = t', sample_values = simulatedData rnd\<rparr>]"
    by (simp add: simulator_fires_armed[OF armed] startMeasurement_fields[OF conn])
next
  assume g: "message_includes e (str ''GATT operation not permitted'')
      \<or> message_includes e (str ''Service not found'')
      \<or> message_includes e (str ''Characteristic not found'')"
  note r = connect_real_rethrow[OF assms g, of "bleManager s"]
  show "snd (snd (connect (bleManager s) dev)) =
          Some (JsError (str ''Error'')
            (if message_includes e (str ''GATT operation not permitted'') then
               str ''Device connection failed. Make sure the ESP32 is advertising and not connected to another device.''
             else if message_includes e (str ''Service not found'') then
               str ''ESP32 service not found. Please check that your ESP32 is running the correct firmware with service UUID: ''
                 @ SERVICE_UUID
             else
               str ''ESP32 characteristic not found. Please verify the characteristic UUID: ''
                 @ CHARACTERISTIC_UUID))"
    by (rule r(3))
  show "device (fst (connect (bleManager s) dev)) = Some dev" by (rule r(1))
  show "\<not> is_demo (fst (connect (bleManager s) dev))"
    using assms(2) by (simp add: is_demo_def r(1))
  show "fst (snd (connect (bleManager s) dev))
          = [ConsoleError (str ''Error connecting to ESP32:'') e]"
    by (rule r(2))
  show "bleConnected (connectToDevice now dev s) = bleConnected s"
    by (rule connectToDevice_thrown(1)[OF r(2) r(3)])
  show "connectionError (connectToDevice now dev s) =
          (if message_includes e (str ''GATT operation not permitted'') then
             str ''Device connection failed. Make sure the ESP32 is advertising and not connected to another device.''
           else if message_includes e (str ''Service not found'') then
             str ''ESP32 service not found. Please check that your ESP32 is running the correct firmware with service UUID: ''
               @ SERVICE_UUID
           else
             str ''ESP32 characteristic not found. Please verify the characteristic UUID: ''
               @ CHARACTERISTIC_UUID)"
    by (rule connectToDevice_thrown(2)[OF r(2) r(3)])
qed

lemma unreachable_message:
  "\<not> message_includes (JsError (str ''NetworkError'') (str ''Connection attempt failed.''))
      (str ''GATT operation not permitted'')"
  "\<not> message_includes (JsError (str ''NetworkError'') (str ''Connection attempt failed.''))
      (str ''Service not found'')"
  "\<not> message_includes (JsError (str ''NetworkError'') (str ''Connection attempt failed.''))
      (str ''Characteristic not found'')"
  by (simp_all add: message_includes_def str_def)

lemma refusing_message:
  "message_includes (JsError (str ''NetworkError'') (str ''GATT operation not permitted.''))
      (str ''GATT operation not permitted'')"
  by (simp add: message_includes_def str_def)

lemma device_ids_real:
  "\<not> startsWith (device_id unreachable_device) (str ''demo-'')"
  "\<not> startsWith (device_id refusing_device) (str ''demo-'')"
  by (simp_all add: unreachable_device_def refusing_device_def str_def)

theorem connect_failure_falls_back_to_demo_witness:
  "isConnected (fst (connect (bleManager initial_screen) unreachable_device))
   \<and> fst (snd (connect (bleManager initial_screen) unreachable_device)) =
       [ConsoleError (str ''Error connecting to ESP32:'')
          (JsError (str ''NetworkError'') (str ''Connection attempt failed.'')),
        ConnectionChange True,
        RawDataReceived ([55356, 57261] @ str '' Demo mode activated - simulated ESP32 data''),
        RawDataReceived ([9888, 65039] @ str '' Using demo mode - ESP32 connection failed'')]
   \<and> bleConnected (connectToDevice (str ''10:00:00'') unreachable_device initial_screen)
   \<and> isRecording (startMeasurement (str ''10:00:05'') None
         (connectToDevice (str ''10:00:00'') unreachable_device initial_screen))
   \<and> collectionInterval (bleManager (startMeasurement (str ''10:00:05'') None
         (connectToDevice (str ''10:00:00'') unreachable_device initial_screen)))
   \<and> snd (snd (connect (bleManager initial_screen) refusing_device)) =
       Some (JsError (str ''Error'')
         (str ''Device connection failed. Make sure the ESP32 is advertising and not connected to another device.''))
   \<and> fst (snd (connect (bleManager initial_screen) refusing_device)) =
       [ConsoleError (str ''Error connecting to ESP32:'')
          (JsError (str ''NetworkError'') (str ''GATT operation not permitted.''))]"
proof -
  have u: "gatt unreachable_device = Some (ConnectFails
        (JsError (str ''NetworkError'') (str ''Connection attempt failed.'')))"
    by (simp add: unreachable_device_def)
  have r: "gatt refusing_device = Some (ConnectFails
        (JsError (str ''NetworkError'') (str ''GATT operation not permitted.'')))"
    by (simp add: refusing_device_def)
  note a = connect_failure_falls_back_to_demo[OF u device_ids_real(1), of
      "JsError (str ''NetworkError'') (str ''Connection attempt failed.'')"
      initial_screen "str ''10:00:00''" "str ''10:00:05''" None]
  note b = connect_failure_falls_back_to_demo[OF r device_ids_real(2), of
      "JsError (str ''NetworkError'') (str ''GATT operation not permitted.'')"
      initial_screen "str ''10:00:00''"]
  show ?thesis
    using a b unreachable_message refusing_message by simp
qed

lemma refused_connect:
  "snd (snd (connect new_manager refusing_device)) =
      Some (JsError (str ''Error'')
        (str ''Device connection failed. Make sure the ESP32 is advertising and not connected to another device.''))
   \<and> \<not> isConnected (fst (connect new_manager refusing_device))
   \<and> device (fst (connect new_manager refusing_device)) = Some refusing_device
   \<and> \<not> bleConnected (connectToDevice (str ''10:00:00'') refusing_device initial_screen)
   \<and> startMeasurement (str ''10:00:05'') None
         (connectToDevice (str ''10:00:00'') refusing_device initial_screen)
       = connectToDevice (str ''10:00:00'') refusing_device initial_screen"
proof -
  have c: "connect new_manager refusing_device =
     (new_manager\<lparr>device := Some refusing_device\<rparr>,
      [ConsoleError (str ''Error connecting to ESP32:'')
         (JsError (str ''NetworkError'') (str ''GATT operation not permitted.''))],
      Some (JsError (str ''Error'')
        (str ''Device connection failed. Make sure the ESP32 is advertising and not connected to another device.'')))"
    using refusing_message device_ids_real(2)
    by (simp add: connect_def Let_def connect_failed_def refusing_device_def)
  have nd: "\<not> is_demo (new_manager\<lparr>device := Some refusing_device\<rparr>)"
    using device_ids_real(2) by (simp add: is_demo_def)
  have nb: "\<not> bleConnected (connectToDevice (str ''10:00:00'') refusing_device initial_screen)"
    by (simp add: connectToDevice_def Let_def initial_screen_def c dispatch_def)
  show ?thesis
    using nb nd by (simp add: c isConnected_def startMeasurement_def) (simp add: new_manager_def)
qed

text \<open>
  What the screen shows after a fallback: the demo notices, and an empty error field.
\<close>

lemma fallback_log:
  "consoleLog (connectToDevice (str ''10:00:00'') unreachable_device initial_screen) =
     [str ''[INFO] Foot Pressure Heatmap System Initialized'',
      str ''[INFO] Ready to scan for ESP32 BLE devices'',
      str ''[INFO] Expected data format: PRESSURE_RIGHT:val1,val2,val3,val4,val5,val6,val7,val8'',
      str ''[INFO] Attempting to connect to ESP32: ESP32-FootSensor...'',
      str ''[INFO] Connected to Demo ESP32 Sensor (demo-device)'',
      str ''[10:00:00] '' @ [55356, 57261] @ str '' Demo mode activated - simulated ESP32 data'',
      str ''[10:00:00] '' @ [9888, 65039] @ str '' Using demo mode - ESP32 connection failed'']
   \<and> connectionError (connectToDevice (str ''10:00:00'') unreachable_device initial_screen) = []"
proof -
  have c: "connect new_manager unreachable_device =
     (new_manager\<lparr>device := Some demo_device\<rparr>,
      [ConsoleError (str ''Error connecting to ESP32:'')
         (JsError (str ''NetworkError'') (str ''Connection attempt failed.'')),
       ConnectionChange True,
       RawDataReceived ([55356, 57261] @ str '' Demo mode activated - simulated ESP32 data''),
       RawDataReceived ([9888, 65039] @ str '' Using demo mode - ESP32 connection failed'')],
      None)"
    using device_ids_real(1)
    by (simp add: connect_def Let_def unreachable_device_def
        connect_failed_fallback[OF unreachable_message])
  have bm: "bleManager initial_screen = new_manager"
    by (simp add: initial_screen_def)
  have dn: "device_name unreachable_device = Some (str ''ESP32-FootSensor'')"
    by (simp add: unreachable_device_def)
  have nn: "str ''ESP32-FootSensor'' \<noteq> []"
    by (simp add: str_def)
  have dm: "is_demo (new_manager\<lparr>device := Some demo_device\<rparr>)"
    by (simp add: is_demo_demo_device)
  show ?thesis
    by (simp add: connectToDevice_def Let_def bm c dn nn dispatch_def
      handleConnectionChange_def handleRawDataReceived_def getDeviceInfo_def isConnected_def dm)
       (simp add: initial_screen_def demo_device_def str_def)
qed

text \<open>
  Claim C3 as stated fails.  A connection refused with \<open>GATT operation not permitted.\<close>
  is thrown on to the caller as a more specific error: the manager keeps the real device,
  \<open>isConnected\<close> is false, the screen stays disconnected and start does nothing.
\<close>

theorem refused_connect_is_not_demo:
  "snd (snd (connect new_manager refusing_device)) =
      Some (JsError (str ''Error'')
        (str ''Device connection failed. Make sure the ESP32 is advertising and not connected to another device.''))
   \<and> \<not> isConnected (fst (connect new_manager refusing_device))
   \<and> device (fst (connect new_manager refusing_device)) = Some refusing_device
   \<and> \<not> bleConnected (connectToDevice (str ''10:00:00'') refusing_device initial_screen)
   \<and> startMeasurement (str ''10:00:05'') None
         (connectToDevice (str ''10:00:00'') refusing_device initial_screen)
       = connectToDevice (str ''10:00:00'') refusing_device initial_screen"
  by (rule refused_connect)

section \<open>The untagged decoder\<close>

lemma four_letters_frame:
  "parseFrame \<lparr>bytes = [97, 44, 98, 44, 99, 44, 100], text_of = str ''a,b,c,d''\<rparr>
     = Sample [0, 0, 0, 0, 0, 0, 0, 0]"
  by (simp add: parseFrame_def str_def PRESSURE_LEFT_def PRESSURE_RIGHT_def match_at_def
      pressure_values_def trim_def white_space_def line_terminator_def entry_value_def
      parseInt_def is_digit_def pad8_def Let_def) (simp add: numeral_eq_Suc)

lemma eight_byte_text_frame:
  "parseFrame \<lparr>bytes = [49, 50, 44, 51, 52, 44, 53, 54], text_of = str ''12,34,56''\<rparr>
     = Sample [49, 50, 44, 51, 52, 44, 53, 54]"
  by (simp add: parseFrame_def str_def PRESSURE_LEFT_def PRESSURE_RIGHT_def match_at_def
      pressure_values_def trim_def white_space_def line_terminator_def entry_value_def
      parseInt_def is_digit_def pad8_def Let_def digits_value_def)

text \<open>
  Claim C4.  The guard of the untagged decoder compares the number of comma-separated
  entries with 4 after every entry, numeric or not, has been turned into a number.  The
  payload \<open>a,b,c,d\<close> has no numeric entry at all and is delivered as the sample of eight
  zeros.
\<close>

theorem csv_guard_counts_entries:
  "parseFrame \<lparr>bytes = [97, 44, 98, 44, 99, 44, 100], text_of = str ''a,b,c,d''\<rparr>
     = Sample [0, 0, 0, 0, 0, 0, 0, 0]
   \<and> handleCharacteristicValueChanged (new_manager\<lparr>isCollecting := True\<rparr>)
       (Some \<lparr>bytes = [97, 44, 98, 44, 99, 44, 100], text_of = str ''a,b,c,d''\<rparr>)
     = [RawDataReceived (str ''a,b,c,d''), DataReceived [0, 0, 0, 0, 0, 0, 0, 0]]"
  by (simp add: handleCharacteristicValueChanged_def four_letters_frame)

section \<open>The tagged decoder\<close>

subsection \<open>Finding the tag\<close>

lemma startsWith_append: "startsWith (t @ r) t"
  by (induction t) simp_all

lemma str_includes_here: "str_includes (t @ r) t"
  using startsWith_append[of t r] by (cases "t @ r") auto

lemma str_includes_append: "str_includes (pre @ t @ r) t"
proof (induction pre)
  case Nil
  then show ?case by (simp add: str_includes_here)
next
  case (Cons c pre)
  then show ?case by simp
qed

lemma capture_after_body:
  assumes "body \<noteq> []" and "\<forall>c\<in>set body. \<not> line_terminator c"
    and "post = [] \<or> line_terminator (hd post)"
  shows "capture_after (body @ post) = Some body"
proof -
  have "takeWhile (\<lambda>c. \<not> line_terminator c) post = []"
    using assms(3) by (cases post) auto
  then have "takeWhile (\<lambda>c. \<not> line_terminator c) (body @ post) = body"
    using assms(2) by (simp add: takeWhile_append2)
  then show ?thesis using assms(1) by (simp add: capture_after_def)
qed

lemma left_not_right: "\<not> startsWith (PRESSURE_RIGHT @ r) PRESSURE_LEFT"
  by (simp add: PRESSURE_RIGHT_def PRESSURE_LEFT_def str_def)

lemma match_at_tag:
  assumes "tag = PRESSURE_LEFT \<or> tag = PRESSURE_RIGHT"
  shows "match_at (tag @ r) = capture_after r"
  using assms by (auto simp: match_at_def startsWith_append left_not_right)

lemma tag_nonempty: "PRESSURE_LEFT \<noteq> []" "PRESSURE_RIGHT \<noteq> []"
  by (simp_all add: PRESSURE_LEFT_def PRESSURE_RIGHT_def str_def)

lemma match_pressure_here:
  assumes "s \<noteq> []" and "match_at s = Some g"
  shows "match_pressure s = Some g"
  using assms by (cases s) simp_all

lemma match_pressure_skip:
  assumes "\<forall>i<length pre. \<not> startsWith (drop i (pre @ r)) PRESSURE_LEFT
      \<and> \<not> startsWith (drop i (pre @ r)) PRESSURE_RIGHT"
  shows "match_pressure (pre @ r) = match_pressure r"
  using assms
proof (induction pre)
  case Nil
  then show ?case by simp
next
  case (Cons c pre)
  have "\<not> startsWith (drop 0 ((c # pre) @ r)) PRESSURE_LEFT
      \<and> \<not> startsWith (drop 0 ((c # pre) @ r)) PRESSURE_RIGHT"
    using Cons.prems by blast
  then have none: "match_at (c # pre @ r) = None"
    by (simp add: match_at_def)
  have "\<forall>i<length pre. \<not> startsWith (drop i (pre @ r)) PRESSURE_LEFT
      \<and> \<not> startsWith (drop i (pre @ r)) PRESSURE_RIGHT"
  proof (intro allI impI)
    fix i assume "i < length pre"
    then have "Suc i < length (c # pre)" by simp
    from Cons.prems[rule_format, OF this] show "\<not> startsWith (drop i (pre @ r)) PRESSURE_LEFT
      \<and> \<not> startsWith (drop i (pre @ r)) PRESSURE_RIGHT" by simp
  qed
  from Cons.IH[OF this] none show ?case by simp
qed

lemma match_pressure_tagged:
  assumes "tag = PRESSURE_LEFT \<or> tag = PRESSURE_RIGHT"
    and "\<forall>i<length pre. \<not> startsWith (drop i (pre @ tag @ body @ post)) PRESSURE_LEFT
      \<and> \<not> startsWith (drop i (pre @ tag @ body @ post)) PRESSURE_RIGHT"
    and "body \<noteq> []" and "\<forall>c\<in>set body. \<not> line_terminator c"
    and "post = [] \<or> line_terminator (hd post)"
  shows "match_pressure (pre @ tag @ body @ post) = Some body"
proof -
  have "match_at (tag @ body @ post) = Some body"
    using match_at_tag[OF assms(1)] capture_after_body[OF assms(3,4,5)] by simp
  moreover have "tag @ body @ post \<noteq> []" using assms(3) by simp
  ultimately have "match_pressure (tag @ body @ post) = Some body"
    by (intro match_pressure_here)
  with match_pressure_skip[OF assms(2)] show ?thesis by simp
qed

lemma parseFrame_tagged:
  assumes "tag = PRESSURE_LEFT \<or> tag = PRESSURE_RIGHT"
    and "\<forall>i<length pre. \<not> startsWith (drop i (pre @ tag @ body @ post)) PRESSURE_LEFT
      \<and> \<not> startsWith (drop i (pre @ tag @ body @ post)) PRESSURE_RIGHT"
    and "body \<noteq> []" and "\<forall>c\<in>set body. \<not> line_terminator c"
    and "post = [] \<or> line_terminator (hd post)"
  shows "parseFrame \<lparr>bytes = bs, text_of = pre @ tag @ body @ post\<rparr>
    = Sample (pad8 (pressure_values (trim body)))"
proof -
  have "str_includes (pre @ tag @ body @ post) PRESSURE_LEFT
      \<or> str_includes (pre @ tag @ body @ post) PRESSURE_RIGHT"
    using assms(1) str_includes_append[of pre tag "body @ post"] by auto
  then show ?thesis
    using match_pressure_tagged[OF assms] by (simp add: parseFrame_def Let_def)
qed

subsection \<open>Splitting and trimming\<close>

lemma split_comma_nonempty: "split_comma s \<noteq> []"
  by (induction s) (auto simp: neq_Nil_conv elim: cons_first.elims)

lemma cons_first_hd_tl: "xs \<noteq> [] \<Longrightarrow> cons_first c xs = (c # hd xs) # tl xs"
  by (cases xs) simp_all

lemma split_comma_Cons:
  "split_comma (c # cs) =
     (if c = 44 then [] # split_comma cs
      else (c # hd (split_comma cs)) # tl (split_comma cs))"
  by (simp add: cons_first_hd_tl split_comma_nonempty)

lemma split_comma_no_comma: "44 \<notin> set x \<Longrightarrow> split_comma x = [x]"
  by (induction x) (simp_all add: split_comma_Cons del: split_comma.simps(2))

lemma split_comma_entry:
  "44 \<notin> set x \<Longrightarrow> split_comma (x @ 44 # r) = x # split_comma r"
  by (induction x) (simp_all add: split_comma_Cons del: split_comma.simps(2))

lemma split_comma_join:
  assumes "es \<noteq> []" and "\<forall>e\<in>set es. 44 \<notin> set e"
  shows "split_comma (join [44] es) = es"
  using assms
proof (induction "[44::nat]" es rule: join.induct)
  case 1
  then show ?case by simp
next
  case (2 x)
  then show ?case by (simp add: split_comma_no_comma)
next
  case (3 x y ys)
  then show ?case by (simp add: split_comma_entry del: split_comma.simps(2))
qed

lemma comma_not_space: "\<not> white_space 44"
  by (simp add: white_space_def line_terminator_def)

lemma split_comma_ltrim:
  "split_comma (dropWhile white_space s) =
     dropWhile white_space (hd (split_comma s)) # tl (split_comma s)"
proof (induction s)
  case Nil
  then show ?case by simp
next
  case (Cons c cs)
  show ?case
  proof (cases "white_space c")
    case True
    then have "c \<noteq> 44" using comma_not_space by auto
    with True Cons show ?thesis
      by (simp add: split_comma_Cons del: split_comma.simps(2))
  next
    case False
    then show ?thesis
      by (simp add: split_comma_Cons del: split_comma.simps(2))
  qed
qed

lemma split_comma_snoc:
  "split_comma (s @ [c]) =
     (if c = 44 then split_comma s @ [[]]
      else butlast (split_comma s) @ [last (split_comma s) @ [c]])"
proof (induction s)
  case Nil
  then show ?case by simp
next
  case (Cons d ds)
  have ne: "split_comma ds \<noteq> []" by (rule split_comma_nonempty)
  show ?case
  proof (cases "d = 44")
    case True
    with Cons ne show ?thesis
      by (simp add: split_comma_Cons del: split_comma.simps(2))
  next
    case False
    with Cons ne show ?thesis
      by (cases "split_comma ds"; cases "tl (split_comma ds) = []")
         (auto simp add: split_comma_Cons butlast_append simp del: split_comma.simps(2))
  qed
qed

lemma split_comma_rev: "split_comma (rev s) = rev (map rev (split_comma s))"
proof (induction s)
  case Nil
  then show ?case by simp
next
  case (Cons c cs)
  have ne: "split_comma cs \<noteq> []" by (rule split_comma_nonempty)
  then obtain h t where ht: "split_comma cs = h # t" by (cases "split_comma cs") auto
  show ?case
    using Cons ht
    by (simp add: split_comma_snoc split_comma_Cons del: split_comma.simps(2))
qed

lemma dropWhile_rev_commute:
  "dropWhile P (rev (dropWhile P (rev xs))) = rev (dropWhile P (rev (dropWhile P xs)))"
proof (induction xs)
  case Nil
  then show ?case by simp
next
  case (Cons x xs)
  show ?case
  proof (cases "P x")
    case True
    show ?thesis
    proof (cases "\<forall>y\<in>set xs. P y")
      case all: True
      then have e: "dropWhile P (rev xs) = []" "dropWhile P xs = []" by auto
      show ?thesis using True all by (simp add: dropWhile_append e)
    next
      case False
      with True Cons show ?thesis by (auto simp add: dropWhile_append)
    qed
  next
    case False
    then show ?thesis by (simp add: dropWhile_append)
  qed
qed

lemma trim_ltrim: "trim (dropWhile white_space s) = trim s"
  by (simp add: trim_def)

lemma trim_rtrim: "trim (rev (dropWhile white_space (rev s))) = trim s"
proof -
  have "trim (rev (dropWhile white_space (rev s)))
      = rev (dropWhile white_space (rev (rev (dropWhile white_space (rev (dropWhile white_space s))))))"
    unfolding trim_def by (simp only: dropWhile_rev_commute)
  also have "\<dots> = trim s"
    by (simp add: trim_def)
  finally show ?thesis .
qed

lemma entry_value_ltrim: "entry_value (dropWhile white_space e) = entry_value e"
  by (simp add: entry_value_def trim_ltrim)

lemma entry_value_rtrim: "entry_value (rev (dropWhile white_space (rev e))) = entry_value e"
  by (simp add: entry_value_def trim_rtrim)

lemma values_ltrim:
  "map entry_value (split_comma (dropWhile white_space s)) = map entry_value (split_comma s)"
proof -
  obtain h t where ht: "split_comma s = h # t"
    using split_comma_nonempty[of s] by (cases "split_comma s") auto
  show ?thesis by (simp add: split_comma_ltrim ht entry_value_ltrim)
qed

lemma values_rtrim:
  "map entry_value (split_comma (rev (dropWhile white_space (rev s))))
     = map entry_value (split_comma s)"
proof -
  obtain h t where ht: "split_comma s = t @ [h]"
    using split_comma_nonempty[of s] by (cases "split_comma s" rule: rev_cases) auto
  have "split_comma (rev s) = rev h # rev (map rev t)"
    by (simp add: split_comma_rev ht)
  then have "split_comma (dropWhile white_space (rev s))
      = dropWhile white_space (rev h) # rev (map rev t)"
    by (simp add: split_comma_ltrim)
  then have "split_comma (rev (dropWhile white_space (rev s)))
      = t @ [rev (dropWhile white_space (rev h))]"
    by (simp add: split_comma_rev[of "dropWhile white_space (rev s)"] rev_map comp_def)
  then show ?thesis by (simp add: ht entry_value_rtrim)
qed

lemma pressure_values_trim: "pressure_values (trim s) = pressure_values s"
  by (simp add: pressure_values_def trim_def values_rtrim values_ltrim)

lemma pressure_values_join:
  assumes "es \<noteq> []" and "\<forall>e\<in>set es. 44 \<notin> set e"
  shows "pressure_values (trim (join [44] es)) = take 8 (map entry_value es)"
  using split_comma_join[OF assms] by (simp add: pressure_values_trim) (simp add: pressure_values_def)

lemma pad8_length: "length vs \<le> 8 \<Longrightarrow> length (pad8 vs) = 8"
  by (simp add: pad8_def)

lemma pad8_nth:
  "i < 8 \<Longrightarrow> length vs \<le> 8 \<Longrightarrow> pad8 vs ! i = (if i < length vs then vs ! i else 0)"
  by (simp add: pad8_def nth_append)

lemma entry_value_cases:
  "entry_value e =
     (case parseInt (trim e) of
        None \<Rightarrow> 0
      | Some n \<Rightarrow> if n < 0 then 0 else if 255 < n then 255 else n)"
  by (auto simp: entry_value_def split: option.splits)

lemma entry_value_range: "0 \<le> entry_value e \<and> entry_value e \<le> 255"
  by (auto simp: entry_value_def split: option.splits)

subsection \<open>Numbers and their decimal strings\<close>

lemma digits_is_digit: "c \<in> set (digits n) \<Longrightarrow> is_digit c"
proof (induction n rule: digits.induct)
  case (1 n)
  show ?case
  proof (cases "n < 10")
    case True
    with 1(2) show ?thesis by (simp add: digits.simps[of n] is_digit_def)
  next
    case False
    have "n mod 10 < 10" by simp
    with False 1 show ?thesis
      by (auto simp: digits.simps[of n] is_digit_def)
  qed
qed

lemma digits_nonempty: "digits n \<noteq> []"
  by (simp add: digits.simps[of n])

lemma digits_value_snoc: "digits_value (ds @ [d]) = 10 * digits_value ds + int (d - 48)"
  by (simp add: digits_value_def)

lemma digits_value_digits: "digits_value (digits n) = int n"
proof (induction n rule: digits.induct)
  case (1 n)
  show ?case
  proof (cases "n < 10")
    case True
    then show ?thesis by (simp add: digits.simps[of n] digits_value_def)
  next
    case False
    have "int (10 * (n div 10) + n mod 10) = int n" by simp
    then have e: "10 * int (n div 10) + int (n mod 10) = int n"
      by (simp only: of_nat_add of_nat_mult of_nat_numeral)
    from False 1 show ?thesis
      by (simp add: digits.simps[of n] digits_value_snoc e)
  qed
qed

lemma digit_facts:
  assumes "is_digit c"
  shows "\<not> white_space c" "c \<noteq> 44" "c \<noteq> 45" "c \<noteq> 43" "\<not> line_terminator c"
  using assms by (auto simp: is_digit_def white_space_def line_terminator_def)

lemma minus_facts: "\<not> white_space 45" "\<not> line_terminator 45" "\<not> is_digit 45"
  by (simp_all add: white_space_def line_terminator_def is_digit_def)

lemma number_to_string_chars:
  assumes "c \<in> set (number_to_string i)"
  shows "\<not> white_space c" "c \<noteq> 44" "\<not> line_terminator c"
  using assms digit_facts[OF digits_is_digit] minus_facts
  by (auto simp: number_to_string_def split: if_splits)

lemma number_to_string_nonempty: "number_to_string i \<noteq> []"
  by (simp add: number_to_string_def digits_nonempty)

lemma trim_no_space: "\<forall>c\<in>set s. \<not> white_space c \<Longrightarrow> trim s = s"
proof -
  assume a: "\<forall>c\<in>set s. \<not> white_space c"
  have d: "dropWhile white_space xs = xs" if "\<forall>c\<in>set xs. \<not> white_space c" for xs
    using that by (cases xs) auto
  show ?thesis using a by (simp add: trim_def d)
qed

lemma takeWhile_all: "\<forall>c\<in>set xs. P c \<Longrightarrow> takeWhile P xs = xs"
  by (induction xs) auto

lemma parseInt_digits: "parseInt (digits n) = Some (int n)"
proof -
  obtain d ds where dd: "digits n = d # ds"
    using digits_nonempty[of n] by (cases "digits n") auto
  have dig: "\<forall>c\<in>set (d # ds). is_digit c"
    using digits_is_digit[of _ n] dd by auto
  then have d: "is_digit d" by simp
  have tw: "takeWhile is_digit (d # ds) = d # ds"
    using dig by (rule takeWhile_all)
  have "parseInt (d # ds) = Some (digits_value (d # ds))"
    using digit_facts[OF d] by (simp add: parseInt_def Let_def tw del: takeWhile.simps)
  then show ?thesis by (simp add: dd[symmetric] digits_value_digits)
qed

lemma parseInt_minus_digits: "parseInt (45 # digits n) = Some (- int n)"
proof -
  have tw: "takeWhile is_digit (digits n) = digits n"
    using digits_is_digit[of _ n] by (intro takeWhile_all) auto
  show ?thesis
    using minus_facts digits_nonempty[of n]
    by (simp add: parseInt_def Let_def digits_value_digits tw)
qed

lemma parseInt_number_to_string: "parseInt (number_to_string i) = Some i"
  by (simp add: number_to_string_def parseInt_digits parseInt_minus_digits)

lemma entry_value_number: "entry_value (number_to_string i) = max 0 (min 255 i)"
proof -
  have "trim (number_to_string i) = number_to_string i"
    using number_to_string_chars(1)[of _ i] by (intro trim_no_space) auto
  then show ?thesis by (simp add: entry_value_def parseInt_number_to_string)
qed

lemma set_tl_subset: "set (tl xs) \<subseteq> set xs"
  by (cases xs) auto

lemma set_dropWhile_subset: "set (dropWhile P xs) \<subseteq> set xs"
  using set_dropWhileD by fastforce

lemma set_trim_subset: "set (trim e) \<subseteq> set e"
proof -
  have "set (trim e) = set (dropWhile white_space (rev (dropWhile white_space e)))"
    by (simp add: trim_def)
  also have "\<dots> \<subseteq> set (rev (dropWhile white_space e))"
    by (rule set_dropWhile_subset)
  also have "\<dots> \<subseteq> set e"
    using set_dropWhile_subset[of white_space e] by simp
  finally show ?thesis .
qed

lemma parseInt_no_digit:
  assumes "\<forall>c\<in>set s. \<not> is_digit c"
  shows "parseInt s = None"
proof -
  let ?t = "dropWhile white_space s"
  let ?u = "if ?t \<noteq> [] \<and> (hd ?t = 45 \<or> hd ?t = 43) then tl ?t else ?t"
  have "set ?t \<subseteq> set s" by (rule set_dropWhile_subset)
  moreover have "set (tl ?t) \<subseteq> set ?t" by (rule set_tl_subset)
  ultimately have "set ?u \<subseteq> set s" by auto
  then have "\<forall>c\<in>set ?u. \<not> is_digit c" using assms by blast
  then have "takeWhile is_digit ?u = []" by (cases ?u) auto
  then show ?thesis by (simp add: parseInt_def Let_def)
qed

lemma entry_value_no_digit:
  assumes "\<forall>c\<in>set e. \<not> is_digit c"
  shows "entry_value e = 0"
proof -
  have "set (trim e) \<subseteq> set e" by (rule set_trim_subset)
  then have "parseInt (trim e) = None"
    using assms by (intro parseInt_no_digit) blast
  then show ?thesis by (simp add: entry_value_def)
qed

lemma set_join: "set (join sep xs) \<subseteq> set sep \<union> \<Union> (set ` set xs)"
  by (induction sep xs rule: join.induct) auto

lemma join_nonempty: "xs \<noteq> [] \<Longrightarrow> hd xs \<noteq> [] \<Longrightarrow> join sep xs \<noteq> []"
  by (induction sep xs rule: join.induct) auto

subsection \<open>Tagged frames\<close>

lemma tagged_values:
  assumes "tag = PRESSURE_LEFT \<or> tag = PRESSURE_RIGHT"
    and "\<forall>i<length pre. \<not> startsWith (drop i (pre @ tag @ join [44] entries @ post)) PRESSURE_LEFT
      \<and> \<not> startsWith (drop i (pre @ tag @ join [44] entries @ post)) PRESSURE_RIGHT"
    and "entries \<noteq> []" and "join [44] entries \<noteq> []"
    and "\<forall>e\<in>set entries. 44 \<notin> set e \<and> (\<forall>c\<in>set e. \<not> line_terminator c)"
    and "post = [] \<or> line_terminator (hd post)"
  shows "parseFrame \<lparr>bytes = bs, text_of = pre @ tag @ join [44] entries @ post\<rparr>
    = Sample (pad8 (take 8 (map entry_value entries)))"
proof -
  have nl: "\<forall>c\<in>set (join [44] entries). \<not> line_terminator c"
  proof
    fix c assume "c \<in> set (join [44] entries)"
    then have "c = 44 \<or> (\<exists>e\<in>set entries. c \<in> set e)"
      using set_join[of "[44]" entries] by auto
    then show "\<not> line_terminator c"
      using assms(5) by (auto simp: line_terminator_def)
  qed
  have nc: "\<forall>e\<in>set entries. 44 \<notin> set e" using assms(5) by blast
  show ?thesis
    using parseFrame_tagged[OF assms(1) assms(2) assms(4) nl assms(6), of bs]
    by (simp add: pressure_values_join[OF assms(3) nc])
qed

text \<open>
  Claim C1.  Take a payload in which a tag \<open>PRESSURE_LEFT:\<close> or \<open>PRESSURE_RIGHT:\<close>, with
  no tag starting before it, is followed by a non-empty comma-separated list that runs to
  the end of the payload or to the first line terminator.  The decoder returns a sample of
  exactly eight values: entry by entry the value \<open>parseInt\<close> reads from the trimmed
  entry, clamped to 0..255, and 0 where it reads none; entries after the eighth are
  dropped and missing ones are 0.  A decimal integer is read as itself (so it is clamped),
  and an entry without any digit reads as none (so it becomes 0).
\<close>

theorem tagged_frame_values:
  assumes "tag = PRESSURE_LEFT \<or> tag = PRESSURE_RIGHT"
    and "\<forall>i<length pre. \<not> startsWith (drop i (pre @ tag @ join [44] entries @ post)) PRESSURE_LEFT
      \<and> \<not> startsWith (drop i (pre @ tag @ join [44] entries @ post)) PRESSURE_RIGHT"
    and "entries \<noteq> []" and "join [44] entries \<noteq> []"
    and "\<forall>e\<in>set entries. 44 \<notin> set e \<and> (\<forall>c\<in>set e. \<not> line_terminator c)"
    and "post = [] \<or> line_terminator (hd post)"
  shows "\<exists>vs. parseFrame \<lparr>bytes = bs, text_of = pre @ tag @ join [44] entries @ post\<rparr> = Sample vs
    \<and> vs = pad8 (take 8 (map entry_value entries))
    \<and> length vs = 8
    \<and> (\<forall>i<8. vs ! i =
         (if i < length entries then
            (case parseInt (trim (entries ! i)) of
               None \<Rightarrow> 0
             | Some n \<Rightarrow> if n < 0 then 0 else if 255 < n then 255 else n)
          else 0))
    \<and> (\<forall>n. entry_value (number_to_string n) = (if n < 0 then 0 else if 255 < n then 255 else n))
    \<and> (\<forall>e. (\<forall>c\<in>set e. \<not> is_digit c) \<longrightarrow> entry_value e = 0)"
proof -
  let ?vs = "pad8 (take 8 (map entry_value entries))"
  have p: "parseFrame \<lparr>bytes = bs, text_of = pre @ tag @ join [44] entries @ post\<rparr> = Sample ?vs"
    by (rule tagged_values[OF assms])
  have l: "length ?vs = 8" by (simp add: pad8_length)
  have n: "?vs ! i =
         (if i < length entries then
            (case parseInt (trim (entries ! i)) of
               None \<Rightarrow> 0
             | Some n \<Rightarrow> if n < 0 then 0 else if 255 < n then 255 else n)
          else 0)" if "i < 8" for i
    using that by (simp add: pad8_nth entry_value_cases)
  have c: "entry_value (number_to_string n) = (if n < 0 then 0 else if 255 < n then 255 else n)" for n
    by (simp add: entry_value_number)
  show ?thesis
    using p l n c entry_value_no_digit by blast
qed

lemma example_entries:
  "join [44] [str ''300'', str ''-5'', str ''10'', str ''abc'', str ''50'', str ''50'', str ''50'', str ''50'']
    = str ''300,-5,10,abc,50,50,50,50''"
  by (simp add: str_def)

lemma example_values:
  "map entry_value [str ''300'', str ''-5'', str ''10'', str ''abc'', str ''50'', str ''50'', str ''50'', str ''50'']
    = [255, 0, 10, 0, 50, 50, 50, 50]"
  by (simp add: str_def entry_value_def trim_def white_space_def line_terminator_def parseInt_def
      is_digit_def digits_value_def Let_def)

theorem tagged_frame_values_witness:
  "parseFrame \<lparr>bytes = [], text_of = PRESSURE_LEFT @ str ''300,-5,10,abc,50,50,50,50''\<rparr>
     = Sample [255, 0, 10, 0, 50, 50, 50, 50]
   \<and> PRESSURE_LEFT @ str ''300,-5,10,abc,50,50,50,50'' = str ''PRESSURE_LEFT:300,-5,10,abc,50,50,50,50''"
proof -
  let ?es = "[str ''300'', str ''-5'', str ''10'', str ''abc'', str ''50'', str ''50'', str ''50'', str ''50'']"
  have h5: "\<forall>e\<in>set ?es. 44 \<notin> set e \<and> (\<forall>c\<in>set e. \<not> line_terminator c)"
    by (simp add: str_def line_terminator_def)
  have h4: "join [44] ?es \<noteq> []" by (simp add: str_def)
  from tagged_frame_values[of PRESSURE_LEFT "[]" ?es "[]" "[]", OF _ _ _ h4 h5]
  have "parseFrame \<lparr>bytes = [], text_of = PRESSURE_LEFT @ join [44] ?es\<rparr>
     = Sample (pad8 (take 8 (map entry_value ?es)))" by simp
  then have "parseFrame \<lparr>bytes = [], text_of = PRESSURE_LEFT @ str ''300,-5,10,abc,50,50,50,50''\<rparr>
     = Sample [255, 0, 10, 0, 50, 50, 50, 50]"
    unfolding example_entries example_values by (simp add: pad8_def)
  then show ?thesis by (simp add: PRESSURE_LEFT_def str_def)
qed

section \<open>The simulator\<close>

lemma simulated_value_range: "0 \<le> simulated_value base r \<and> simulated_value base r \<le> 255"
  by (simp add: simulated_value_def)

lemma noise_bounds:
  fixes r :: real
  assumes "0 \<le> r" and "r < 1"
  shows "- 20 \<le> \<lfloor>r * 40 - 20\<rfloor>" and "\<lfloor>r * 40 - 20\<rfloor> \<le> 19"
proof -
  have "(- 20::real) \<le> r * 40 - 20" using assms(1) by simp
  then show "- 20 \<le> \<lfloor>r * 40 - 20\<rfloor>" by (simp add: le_floor_iff)
  have "r * 40 - 20 < 20" using assms(2) by simp
  then have "\<lfloor>r * 40 - 20\<rfloor> < 20" by (simp add: floor_less_iff)
  then show "\<lfloor>r * 40 - 20\<rfloor> \<le> 19" by simp
qed

lemma simulated_value_near:
  assumes "0 \<le> r" and "r < 1" and "0 \<le> base" and "base \<le> 255"
  shows "\<bar>simulated_value base r - base\<bar> \<le> 20"
proof -
  have "\<bar>max 0 (min 255 (base + n)) - base\<bar> \<le> 20" if "- 20 \<le> n" "n \<le> 19" for n :: int
    using that assms(3,4) by linarith
  from this[OF noise_bounds[OF assms(1,2)]] show ?thesis
    unfolding simulated_value_def .
qed

lemma baseValues_range: "i < 8 \<Longrightarrow> 0 \<le> baseValues ! i \<and> baseValues ! i \<le> 255"
proof -
  assume "i < 8"
  then have "i \<in> {0, 1, 2, 3, 4, 5, 6, 7}" by auto
  then show ?thesis by (auto simp: baseValues_def)
qed

lemma simulatedData_length: "length (simulatedData rnd) = 8"
  by (simp add: simulatedData_def)

lemma simulatedData_nth:
  "i < 8 \<Longrightarrow> simulatedData rnd ! i = simulated_value (baseValues ! i) (rnd i)"
  by (simp add: simulatedData_def)

lemma simulatedData_range: "v \<in> set (simulatedData rnd) \<Longrightarrow> 0 \<le> v \<and> v \<le> 255"
  by (auto simp: simulatedData_def simulated_value_range)

lemma frame_round_trip:
  assumes "length vs = 8" and "\<forall>v\<in>set vs. 0 \<le> v \<and> v \<le> 255"
  shows "parseFrame \<lparr>bytes = bs, text_of = frame_string vs\<rparr> = Sample vs"
proof -
  let ?es = "map number_to_string vs"
  have ne: "?es \<noteq> []" using assms(1) by auto
  have hd: "hd ?es \<noteq> []"
    using ne by (simp add: hd_map number_to_string_nonempty)
  have jn: "join [44] ?es \<noteq> []" using ne hd by (rule join_nonempty)
  have ch: "\<forall>e\<in>set ?es. 44 \<notin> set e \<and> (\<forall>c\<in>set e. \<not> line_terminator c)"
    using number_to_string_chars by auto
  have "parseFrame \<lparr>bytes = bs, text_of = [] @ PRESSURE_LEFT @ join [44] ?es @ []\<rparr>
      = Sample (pad8 (take 8 (map entry_value ?es)))"
    by (rule tagged_values) (use ne jn ch in simp_all)
  moreover have "map entry_value ?es = vs"
    using assms(2) by (simp add: comp_def entry_value_number map_idI)
  ultimately show ?thesis
    using assms(1) by (simp add: frame_string_def pad8_def)
qed

text \<open>
  Claim C7.  The simulated vector has eight entries, each the base value plus the floored
  noise, clamped to 0..255; with random draws in \<open>[0,1)\<close> the noise lies in -20..19 and
  every entry is within 20 of its base value.  An armed, collecting simulator emits the
  frame string, which is the tag \<open>PRESSURE_LEFT:\<close> followed by the comma-joined values,
  and the vector itself; and the decoder applied to that frame string returns exactly that
  vector.
\<close>

theorem simulated_frame_round_trip:
  "length (simulatedData rnd) = 8
   \<and> (\<forall>i<8. simulatedData rnd ! i = max 0 (min 255 (baseValues ! i + \<lfloor>rnd i * 40 - 20\<rfloor>)))
   \<and> (\<forall>v\<in>set (simulatedData rnd). 0 \<le> v \<and> v \<le> 255)
   \<and> ((\<forall>i<8. 0 \<le> rnd i \<and> rnd i < 1) \<longrightarrow>
        (\<forall>i<8. - 20 \<le> \<lfloor>rnd i * 40 - 20\<rfloor> \<and> \<lfloor>rnd i * 40 - 20\<rfloor> \<le> 19
           \<and> \<bar>simulatedData rnd ! i - baseValues ! i\<bar> \<le> 20))
   \<and> (collectionInterval m \<and> isCollecting m \<longrightarrow>
        simulator_tick m rnd =
          [RawDataReceived (frame_string (simulatedData rnd)), DataReceived (simulatedData rnd)])
   \<and> frame_string (simulatedData rnd)
        = PRESSURE_LEFT @ join [44] (map number_to_string (simulatedData rnd))
   \<and> parseFrame \<lparr>bytes = bs, text_of = frame_string (simulatedData rnd)\<rparr>
        = Sample (simulatedData rnd)"
proof -
  have a: "\<forall>i<8. simulatedData rnd ! i = max 0 (min 255 (baseValues ! i + \<lfloor>rnd i * 40 - 20\<rfloor>))"
    by (simp add: simulatedData_nth simulated_value_def)
  have b: "\<forall>v\<in>set (simulatedData rnd). 0 \<le> v \<and> v \<le> 255"
    using simulatedData_range by blast
  have c: "\<forall>i<8. - 20 \<le> \<lfloor>rnd i * 40 - 20\<rfloor> \<and> \<lfloor>rnd i * 40 - 20\<rfloor> \<le> 19
           \<and> \<bar>simulatedData rnd ! i - baseValues ! i\<bar> \<le> 20"
    if "\<forall>i<8. 0 \<le> rnd i \<and> rnd i < 1"
  proof (intro allI impI)
    fix i :: nat assume i: "i < 8"
    then have r: "0 \<le> rnd i" "rnd i < 1" using that by auto
    show "- 20 \<le> \<lfloor>rnd i * 40 - 20\<rfloor> \<and> \<lfloor>rnd i * 40 - 20\<rfloor> \<le> 19
           \<and> \<bar>simulatedData rnd ! i - baseValues ! i\<bar> \<le> 20"
      using noise_bounds[OF r] simulated_value_near[OF r] baseValues_range[OF i]
      by (simp add: simulatedData_nth[OF i])
  qed
  have d: "parseFrame \<lparr>bytes = bs, text_of = frame_string (simulatedData rnd)\<rparr>
        = Sample (simulatedData rnd)"
    by (rule frame_round_trip[OF simulatedData_length b])
  show ?thesis
    using a b c d by (simp add: simulatedData_length simulator_tick_def frame_string_def)
qed

lemma upt_8: "[0..<8] = [0, 1, 2, 3, 4, 5, 6, 7]"
  by (simp add: upt_rec)

lemma half_data: "simulatedData (\<lambda>i. 1 / 2) = [50, 100, 150, 200, 250, 255, 128, 64]"
  by (simp add: simulatedData_def upt_8 simulated_value_def baseValues_def)

lemma half_frame:
  "frame_string [50, 100, 150, 200, 250, 255, 128, 64]
     = str ''PRESSURE_LEFT:50,100,150,200,250,255,128,64''"
  by (simp add: frame_string_def PRESSURE_LEFT_def number_to_string_def digits.simps str_def)

theorem simulated_frame_round_trip_witness:
  "(0::real) \<le> 1 / 2 \<and> (1 / 2 :: real) < 1
   \<and> simulatedData (\<lambda>i. 1 / 2) = [50, 100, 150, 200, 250, 255, 128, 64]
   \<and> frame_string (simulatedData (\<lambda>i. 1 / 2)) = str ''PRESSURE_LEFT:50,100,150,200,250,255,128,64''
   \<and> parseFrame \<lparr>bytes = [], text_of = str ''PRESSURE_LEFT:50,100,150,200,250,255,128,64''\<rparr>
       = Sample [50, 100, 150, 200, 250, 255, 128, 64]
   \<and> simulator_tick (new_manager\<lparr>isCollecting := True, collectionInterval := True\<rparr>) (\<lambda>i. 1 / 2)
       = [RawDataReceived (str ''PRESSURE_LEFT:50,100,150,200,250,255,128,64''),
          DataReceived [50, 100, 150, 200, 250, 255, 128, 64]]"
proof -
  let ?m = "new_manager\<lparr>isCollecting := True, collectionInterval := True\<rparr>"
  note w = simulated_frame_round_trip[of "\<lambda>i. 1 / 2" ?m "[]"]
  have armed: "collectionInterval ?m \<and> isCollecting ?m" by simp
  from w have t: "collectionInterval ?m \<and> isCollecting ?m \<longrightarrow>
        simulator_tick ?m (\<lambda>i. 1 / 2) =
          [RawDataReceived (frame_string (simulatedData (\<lambda>i. 1 / 2))),
           DataReceived (simulatedData (\<lambda>i. 1 / 2))]"
    by (elim conjE)
  from w have p: "parseFrame \<lparr>bytes = [], text_of = frame_string (simulatedData (\<lambda>i. 1 / 2))\<rparr>
        = Sample (simulatedData (\<lambda>i. 1 / 2))"
    by (elim conjE)
  show ?thesis
    using t[rule_format, OF armed] p unfolding half_data half_frame by simp
qed

section \<open>The reported maximum point\<close>

lemma add_values_length: "length (add_values acc vs) = length acc"
  by (induction acc vs rule: add_values.induct) simp_all

lemma foldl_add_values_length: "length (foldl add_values acc vss) = length acc"
  by (induction vss arbitrary: acc) (simp_all add: add_values_length)

lemma channel_averages_length: "length (channel_averages pd) = 8"
  by (simp add: channel_averages_def channel_sums_def foldl_add_values_length)

lemma add_values_zero: "add_values (replicate (length vs) 0) vs = vs"
  by (induction vs) simp_all

lemma single_sample_averages:
  assumes "length vs = 8"
  shows "channel_averages [\<lparr>timestamp = t, sample_values = vs\<rparr>] = vs"
proof -
  have "add_values (replicate 8 0) vs = vs"
    using add_values_zero[of vs] assms by simp
  then show ?thesis
    by (simp add: channel_averages_def channel_sums_def math_round_div_def map_idI)
qed

lemma stopMeasurement_nonempty:
  assumes "pressureData s \<noteq> []"
  shows "testCompleted (stopMeasurement now w s)"
    and "averagePressures (stopMeasurement now w s) = channel_averages (pressureData s)"
    and "maxPressurePoint (stopMeasurement now w s) =
           (indexOf (channel_averages (pressureData s))
              (math_max (channel_averages (pressureData s))),
            math_max (channel_averages (pressureData s)))"
    and "averagePressure (stopMeasurement now w s) =
           math_round_div (sum_list (channel_averages (pressureData s)))
             (length (channel_averages (pressureData s)))"
  by (simp_all add: stopMeasurement_eq completeTest_nonempty[OF assms])

text \<open>
  Claim C9.  For every non-empty list of samples \<open>calculateAverages\<close> stores the channel
  averages and, as maximum point, the greatest average together with an index that holds
  it, every earlier channel holding a strictly smaller average: among several channels at
  the maximum the first one is reported.  \<open>stopMeasurement\<close> reports the same point for the
  samples of the screen.  Every vector of eight values is the vector of averages of some
  list of samples, namely of the single sample with these values.
\<close>

theorem reported_max_point_is_first_maximum:
  assumes "pd \<noteq> []"
  shows "averagePressures (calculateAverages pd s) = channel_averages pd
    \<and> length (averagePressures (calculateAverages pd s)) = 8
    \<and> snd (maxPressurePoint (calculateAverages pd s))
        = Max (set (averagePressures (calculateAverages pd s)))
    \<and> 0 \<le> fst (maxPressurePoint (calculateAverages pd s))
    \<and> nat (fst (maxPressurePoint (calculateAverages pd s))) < 8
    \<and> averagePressures (calculateAverages pd s) ! nat (fst (maxPressurePoint (calculateAverages pd s)))
        = snd (maxPressurePoint (calculateAverages pd s))
    \<and> (\<forall>j<nat (fst (maxPressurePoint (calculateAverages pd s))).
          averagePressures (calculateAverages pd s) ! j
            < snd (maxPressurePoint (calculateAverages pd s)))
    \<and> (pressureData s' = pd \<longrightarrow>
          maxPressurePoint (stopMeasurement now w s') = maxPressurePoint (calculateAverages pd s)
        \<and> averagePressures (stopMeasurement now w s') = averagePressures (calculateAverages pd s))
    \<and> (length vs = 8 \<longrightarrow>
          averagePressures (calculateAverages [\<lparr>timestamp = t, sample_values = vs\<rparr>] s) = vs)"
proof -
  let ?A = "channel_averages pd"
  let ?M = "math_max ?A"
  let ?I = "indexOf ?A ?M"
  note c = calculateAverages_fields[OF assms, of s]
  have l: "length ?A = 8" by (rule channel_averages_length)
  then have ne: "?A \<noteq> []" by auto
  from math_max_indexOf_first[OF ne]
  have m1: "?M = Max (set ?A)" and m2: "0 \<le> ?I" and m3: "nat ?I < length ?A"
    and m4: "?A ! nat ?I = ?M" and m5: "\<forall>j<nat ?I. ?A ! j < ?M"
    by blast+
  have stop: "maxPressurePoint (stopMeasurement now w s') = (?I, ?M)
        \<and> averagePressures (stopMeasurement now w s') = ?A"
    if "pressureData s' = pd"
    using that assms stopMeasurement_nonempty[of s' now w] by simp
  have single: "averagePressures (calculateAverages [\<lparr>timestamp = t, sample_values = vs\<rparr>] s) = vs"
    if "length vs = 8"
    using that by (simp add: calculateAverages_fields single_sample_averages)
  show ?thesis
    unfolding c fst_conv snd_conv
  proof (intro conjI impI)
    show "?A = ?A" by (rule refl)
    show "length ?A = 8" by (rule l)
    show "?M = Max (set ?A)" by (rule m1)
    show "0 \<le> ?I" by (rule m2)
    show "nat ?I < 8" using m3 l by simp
    show "?A ! nat ?I = ?M" by (rule m4)
    show "\<forall>j<nat ?I. ?A ! j < ?M" by (rule m5)
    show "maxPressurePoint (stopMeasurement now w s') = (?I, ?M)" if "pressureData s' = pd"
      using stop[OF that] by blast
    show "averagePressures (stopMeasurement now w s') = ?A" if "pressureData s' = pd"
      using stop[OF that] by blast
    show "averagePressures (calculateAverages [\<lparr>timestamp = t, sample_values = vs\<rparr>] s) = vs"
      if "length vs = 8"
      by (rule single[OF that])
  qed
qed

lemma tied_sample_averages: "channel_averages tied_sample = [100, 100, 50, 0, 0, 0, 0, 0]"
  by (simp add: tied_sample_def single_sample_averages)

lemma tied_sample_point:
  "maxPressurePoint (calculateAverages tied_sample s) = (0, 100)"
  "averagePressures (calculateAverages tied_sample s) = [100, 100, 50, 0, 0, 0, 0, 0]"
proof -
  have ne: "tied_sample \<noteq> []" by (simp add: tied_sample_def)
  show "maxPressurePoint (calculateAverages tied_sample s) = (0, 100)"
    by (simp add: calculateAverages_fields[OF ne] tied_sample_averages indexOf_def)
  show "averagePressures (calculateAverages tied_sample s) = [100, 100, 50, 0, 0, 0, 0, 0]"
    by (simp add: calculateAverages_fields[OF ne] tied_sample_averages)
qed

theorem reported_max_point_is_first_maximum_witness:
  "tied_sample \<noteq> []
   \<and> pressureData (feed tied_sample started_screen) = tied_sample
   \<and> averagePressures (calculateAverages tied_sample initial_screen)
       = [100, 100, 50, 0, 0, 0, 0, 0]
   \<and> maxPressurePoint (calculateAverages tied_sample initial_screen) = (0, 100)
   \<and> averagePressures (stopMeasurement (str ''10:00:02'') None (feed tied_sample started_screen))
       = [100, 100, 50, 0, 0, 0, 0, 0]
   \<and> maxPressurePoint (stopMeasurement (str ''10:00:02'') None (feed tied_sample started_screen))
       = (0, 100)"
proof -
  have ne: "tied_sample \<noteq> []" by (simp add: tied_sample_def)
  have pd: "pressureData (feed tied_sample started_screen) = tied_sample"
    by (simp add: feed_pressureData started_fields)
  from reported_max_point_is_first_maximum[OF ne, of initial_screen
      "feed tied_sample started_screen" "str ''10:00:02''" None]
  have "maxPressurePoint (stopMeasurement (str ''10:00:02'') None (feed tied_sample started_screen))
        = maxPressurePoint (calculateAverages tied_sample initial_screen)
      \<and> averagePressures (stopMeasurement (str ''10:00:02'') None (feed tied_sample started_screen))
        = averagePressures (calculateAverages tied_sample initial_screen)"
    using pd by blast
  then show ?thesis
    using ne pd by (simp add: tied_sample_point)
qed

section \<open>The end-to-end scenario on a connected device\<close>

lemma connectToDevice_keeps_samples:
  "pressureData (connectToDevice now dev s) = pressureData s"
  using dispatch_no_data[OF connect_events_no_data]
  by (simp add: connectToDevice_def Let_def split: option.splits)

lemma ready_fields:
  "bleConnected ready_screen" "pressureData ready_screen = []"
proof -
  have "snd (snd (connect (bleManager initial_screen) ready_device)) = None"
    by (simp add: connect_def Let_def ready_device_def str_def)
  then show "bleConnected ready_screen"
    unfolding ready_screen_def by (rule connectToDevice_resolved)
  show "pressureData ready_screen = []"
    by (simp add: ready_screen_def connectToDevice_keeps_samples initial_screen_def)
qed

lemma recording_fields:
  "isRecording recording_screen" "\<not> testCompleted recording_screen"
  "pressureData recording_screen = []" "averagePressures recording_screen = replicate 8 0"
  "timeRemaining recording_screen = 20" "timerRef recording_screen = Some []"
  "isCollecting (bleManager recording_screen)"
  using startMeasurement_fields[OF ready_fields(1), of "str ''10:00:00''" None]
  by (simp_all add: recording_screen_def ready_fields)

lemma notification_sample:
  assumes "isCollecting (bleManager s)" and "parseFrame v = Sample vs"
  shows "notification now (Some v) s
    = handleDataReceived now vs (handleRawDataReceived now (text_of v) s)"
  using assms
  by (simp add: notification_def handleCharacteristicValueChanged_def dispatch_def)

lemma handlers_keep_manager:
  "bleManager (handleDataReceived now vs s) = bleManager s"
  "bleManager (handleRawDataReceived now r s) = bleManager s"
  by (simp_all add: handleDataReceived_def handleRawDataReceived_def)

lemma three_frames_parsed:
  "parseFrame \<lparr>bytes = b, text_of = str ''PRESSURE_RIGHT:10,20,30,40,50,60,70,80''\<rparr>
     = Sample [10, 20, 30, 40, 50, 60, 70, 80]"
  "parseFrame \<lparr>bytes = b, text_of = str ''PRESSURE_RIGHT:20,30,40,50,60,70,80,90''\<rparr>
     = Sample [20, 30, 40, 50, 60, 70, 80, 90]"
  "parseFrame \<lparr>bytes = b, text_of = str ''PRESSURE_RIGHT:30,40,50,60,70,80,90,100''\<rparr>
     = Sample [30, 40, 50, 60, 70, 80, 90, 100]"
  by (simp_all add: parseFrame_def str_def PRESSURE_LEFT_def PRESSURE_RIGHT_def match_at_def
      capture_after_def pressure_values_def trim_def white_space_def line_terminator_def
      entry_value_def parseInt_def is_digit_def digits_value_def pad8_def Let_def)

lemma deliver_three_frames:
  assumes "isCollecting (bleManager s)"
  shows "pressureData (deliver three_frames s) = pressureData s @ three_samples"
    and "timerRef (deliver three_frames s) = timerRef s"
    and "timeRemaining (deliver three_frames s) = timeRemaining s"
    and "testCompleted (deliver three_frames s) = testCompleted s"
    and "averagePressures (deliver three_frames s) = averagePressures s"
proof -
  let ?f1 = "\<lparr>bytes = str ''PRESSURE_RIGHT:10,20,30,40,50,60,70,80'',
       text_of = str ''PRESSURE_RIGHT:10,20,30,40,50,60,70,80''\<rparr>"
  let ?f2 = "\<lparr>bytes = str ''PRESSURE_RIGHT:20,30,40,50,60,70,80,90'',
       text_of = str ''PRESSURE_RIGHT:20,30,40,50,60,70,80,90''\<rparr>"
  let ?f3 = "\<lparr>bytes = str ''PRESSURE_RIGHT:30,40,50,60,70,80,90,100'',
       text_of = str ''PRESSURE_RIGHT:30,40,50,60,70,80,90,100''\<rparr>"
  let ?s1 = "notification (str ''10:00:01'') (Some ?f1) s"
  let ?s2 = "notification (str ''10:00:02'') (Some ?f2) ?s1"
  let ?s3 = "notification (str ''10:00:03'') (Some ?f3) ?s2"
  have d: "deliver three_frames s = ?s3"
    by (simp add: deliver_def three_frames_def)
  have e1: "?s1 = handleDataReceived (str ''10:00:01'') [10, 20, 30, 40, 50, 60, 70, 80]
      (handleRawDataReceived (str ''10:00:01'') (text_of ?f1) s)"
    by (rule notification_sample[OF assms three_frames_parsed(1)])
  have c1: "isCollecting (bleManager ?s1)"
    using assms by (simp only: e1 handlers_keep_manager)
  have e2: "?s2 = handleDataReceived (str ''10:00:02'') [20, 30, 40, 50, 60, 70, 80, 90]
      (handleRawDataReceived (str ''10:00:02'') (text_of ?f2) ?s1)"
    by (rule notification_sample[OF c1 three_frames_parsed(2)])
  have c2: "isCollecting (bleManager ?s2)"
    using c1 by (simp only: e2 handlers_keep_manager)
  have e3: "?s3 = handleDataReceived (str ''10:00:03'') [30, 40, 50, 60, 70, 80, 90, 100]
      (handleRawDataReceived (str ''10:00:03'') (text_of ?f3) ?s2)"
    by (rule notification_sample[OF c2 three_frames_parsed(3)])
  have p1: "pressureData ?s1 = pressureData s
      @ [\<lparr>timestamp = str ''10:00:01'', sample_values = [10, 20, 30, 40, 50, 60, 70, 80]\<rparr>]"
    "timerRef ?s1 = timerRef s" "timeRemaining ?s1 = timeRemaining s"
    "testCompleted ?s1 = testCompleted s" "averagePressures ?s1 = averagePressures s"
    by (simp_all only: e1) (simp_all add: handleDataReceived_def handleRawDataReceived_def)
  have p2: "pressureData ?s2 = pressureData ?s1
      @ [\<lparr>timestamp = str ''10:00:02'', sample_values = [20, 30, 40, 50, 60, 70, 80, 90]\<rparr>]"
    "timerRef ?s2 = timerRef ?s1" "timeRemaining ?s2 = timeRemaining ?s1"
    "testCompleted ?s2 = testCompleted ?s1" "averagePressures ?s2 = averagePressures ?s1"
    by (simp_all only: e2) (simp_all add: handleDataReceived_def handleRawDataReceived_def)
  have p3: "pressureData ?s3 = pressureData ?s2
      @ [\<lparr>timestamp = str ''10:00:03'', sample_values = [30, 40, 50, 60, 70, 80, 90, 100]\<rparr>]"
    "timerRef ?s3 = timerRef ?s2" "timeRemaining ?s3 = timeRemaining ?s2"
    "testCompleted ?s3 = testCompleted ?s2" "averagePressures ?s3 = averagePressures ?s2"
    by (simp_all only: e3) (simp_all add: handleDataReceived_def handleRawDataReceived_def)
  show "pressureData (deliver three_frames s) = pressureData s @ three_samples"
    by (simp only: d p3 p2 p1) (simp add: three_samples_def)
  show "timerRef (deliver three_frames s) = timerRef s" by (simp only: d p3 p2 p1)
  show "timeRemaining (deliver three_frames s) = timeRemaining s" by (simp only: d p3 p2 p1)
  show "testCompleted (deliver three_frames s) = testCompleted s" by (simp only: d p3 p2 p1)
  show "averagePressures (deliver three_frames s) = averagePressures s"
    by (simp only: d p3 p2 p1)
qed

lemma delivered_fields:
  "pressureData (deliver three_frames recording_screen) = three_samples"
  "timerRef (deliver three_frames recording_screen) = Some []"
  "timeRemaining (deliver three_frames recording_screen) = 20"
  "\<not> testCompleted (deliver three_frames recording_screen)"
  "averagePressures (deliver three_frames recording_screen) = replicate 8 0"
  using deliver_three_frames[OF recording_fields(7)] by (simp_all add: recording_fields)

lemma expiry_of_delivered:
  "(countdown_tick ^^ 20) (deliver three_frames recording_screen)
     = completeTest [] ((deliver three_frames recording_screen)\<lparr>timeRemaining := 0\<rparr>)"
proof -
  have "(countdown_tick ^^ Suc 19) (deliver three_frames recording_screen)
      = completeTest [] ((deliver three_frames recording_screen)\<lparr>timeRemaining := 0\<rparr>)"
    by (rule countdown_expiry) (simp_all add: delivered_fields)
  then show ?thesis by simp
qed

text \<open>
  Claim C2.  On a screen linked to a real device and started, three notifications deliver
  the three samples of the scenario.  Stopped early, the session is completed with the
  averages \<open>[20,30,40,50,60,70,80,90]\<close>, the overall mean 55 and the maximum point (7, 90),
  as claimed.  Left to the countdown, the same three collected samples give no averages
  and no completed session, only the warning that no data was collected: the callback of
  the countdown calls the \<open>completeTest\<close> that was created before start, and that one
  reads the sample list as it was then.
\<close>

theorem expiry_ignores_collected_samples:
  "pressureData (deliver three_frames recording_screen) = three_samples
   \<and> testCompleted (stopMeasurement (str ''10:00:04'') None
        (deliver three_frames recording_screen))
   \<and> averagePressures (stopMeasurement (str ''10:00:04'') None
        (deliver three_frames recording_screen)) = [20, 30, 40, 50, 60, 70, 80, 90]
   \<and> averagePressure (stopMeasurement (str ''10:00:04'') None
        (deliver three_frames recording_screen)) = 55
   \<and> maxPressurePoint (stopMeasurement (str ''10:00:04'') None
        (deliver three_frames recording_screen)) = (7, 90)
   \<and> pressureData ((countdown_tick ^^ 20) (deliver three_frames recording_screen))
        = three_samples
   \<and> \<not> testCompleted ((countdown_tick ^^ 20) (deliver three_frames recording_screen))
   \<and> averagePressures ((countdown_tick ^^ 20) (deliver three_frames recording_screen))
        = replicate 8 0
   \<and> last (consoleLog ((countdown_tick ^^ 20) (deliver three_frames recording_screen)))
        = str ''[WARNING] No data collected during measurement''"
proof -
  have ne: "three_samples \<noteq> []" by (simp add: three_samples_def)
  have "testCompleted (stopMeasurement (str ''10:00:04'') None
        (deliver three_frames recording_screen))"
    by (simp add: stopMeasurement_eq delivered_fields completeTest_nonempty[OF ne])
  moreover have "averagePressures (stopMeasurement (str ''10:00:04'') None
        (deliver three_frames recording_screen)) = [20, 30, 40, 50, 60, 70, 80, 90]"
    "averagePressure (stopMeasurement (str ''10:00:04'') None
        (deliver three_frames recording_screen)) = 55"
    "maxPressurePoint (stopMeasurement (str ''10:00:04'') None
        (deliver three_frames recording_screen)) = (7, 90)"
    by (simp_all add: stopMeasurement_eq delivered_fields three_samples_results)
  ultimately show ?thesis
    by (simp add: expiry_of_delivered completeTest_empty completeTest_keeps delivered_fields)
qed

end
